theory Spec2Isabelle
  imports Complex_Main "HOL-Library.AList"
begin

section \<open>Connection registry of the queue gateway\<close>

text \<open>
  \<^verbatim>\<open>QueueGateway.clients\<close> is a JavaScript \<^verbatim>\<open>Map<string, Set<Socket>>\<close>. Both
  containers keep insertion order, so the map is an association list from user ids to
  the list of that user's sockets. A socket is held by reference; the reference is its
  socket id (\<^verbatim>\<open>client.id\<close>). Calls of the logger are left out everywhere: they write
  to the process log and nothing reads them back.
\<close>

type_synonym user_id = string
type_synonym socket_id = string
type_synonym registry = "(user_id \<times> socket_id list) list"

definition set_add :: "socket_id \<Rightarrow> socket_id list \<Rightarrow> socket_id list" where
  \<comment> \<open>\<^verbatim>\<open>Set.prototype.add\<close>: an element already present keeps its place.\<close>
  "set_add c s = (if c \<in> set s then s else s @ [c])"

definition set_delete :: "socket_id \<Rightarrow> socket_id list \<Rightarrow> socket_id list" where
  \<comment> \<open>\<^verbatim>\<open>Set.prototype.delete\<close>\<close>
  "set_delete c s = removeAll c s"

definition subscribeClient :: "user_id \<Rightarrow> socket_id \<Rightarrow> registry \<Rightarrow> registry" where
  "subscribeClient userId client clients =
     (let s = (case map_of clients userId of None \<Rightarrow> [] | Some s0 \<Rightarrow> s0);
          s' = set_add client s
      in AList.update userId s' clients)"

definition unsubscribeClient :: "user_id \<Rightarrow> socket_id \<Rightarrow> registry \<Rightarrow> registry" where
  "unsubscribeClient userId client clients =
     (case map_of clients userId of
        None \<Rightarrow> clients
      | Some s \<Rightarrow>
          (let s' = set_delete client s
           in if length s' = 0 then AList.delete userId clients
              else AList.update userId s' clients))"

definition getClients :: "registry \<Rightarrow> user_id \<Rightarrow> socket_id list" where
  "getClients clients userId =
     (case map_of clients userId of None \<Rightarrow> [] | Some s \<Rightarrow> s)"

definition registry_keys :: "registry \<Rightarrow> user_id list" where
  \<comment> \<open>\<^verbatim>\<open>Array.from(this.clients.keys())\<close>\<close>
  "registry_keys clients = map fst clients"

definition registry_inv :: "registry \<Rightarrow> bool" where
  \<comment> \<open>keys are unique, and every key present holds a non-empty set without duplicates\<close>
  "registry_inv clients \<longleftrightarrow>
     distinct (map fst clients) \<and>
     list_all (\<lambda>(u, s). s \<noteq> [] \<and> distinct s) clients"

section \<open>Users, sockets and the wire format\<close>

text \<open>
  A thrown JavaScript value is kept with its \<^verbatim>\<open>message\<close> property, which the
  \<^verbatim>\<open>catch\<close> blocks read as \<^verbatim>\<open>err?.message ?? fallback\<close>.
\<close>

datatype exn = Exn "string option"

definition message_or :: "exn \<Rightarrow> string \<Rightarrow> string" where
  \<comment> \<open>\<^verbatim>\<open>err?.message ?? fallback\<close>\<close>
  "message_or e fallback = (case e of Exn None \<Rightarrow> fallback | Exn (Some m) \<Rightarrow> m)"

definition truthy :: "string option \<Rightarrow> bool" where
  \<comment> \<open>JavaScript truthiness of a value that is a string, \<^verbatim>\<open>undefined\<close> or \<^verbatim>\<open>null\<close>\<close>
  "truthy v = (case v of None \<Rightarrow> False | Some s \<Rightarrow> s \<noteq> [])"

definition EventsEnum_ERROR :: string where
  "EventsEnum_ERROR = ''error''"

definition EventsEnum_SUCCESS :: string where
  "EventsEnum_SUCCESS = ''success''"

definition EventsEnum_CONVERSATION_LIST_RESPONSE :: string where
  "EventsEnum_CONVERSATION_LIST_RESPONSE = ''private:conversation_list_response''"

definition EventsEnum_CONVERSATION_RESPONSE :: string where
  "EventsEnum_CONVERSATION_RESPONSE = ''private:conversation_response''"

definition EventsEnum_CONVERSATION_UPDATE :: string where
  "EventsEnum_CONVERSATION_UPDATE = ''private:conversation_update''"

record user =
  u_id :: string
  u_email :: string
  u_role :: string
  u_name :: string
  u_profilePictureId :: "string option"

record user_public =
  up_id :: string
  up_email :: string
  up_role :: string
  up_name :: string

record participant =
  p_id :: string
  p_name :: string
  p_email :: string
  p_profilePictureId :: "string option"

definition select_public :: "user \<Rightarrow> user_public" where
  \<comment> \<open>\<^verbatim>\<open>select: { id: true, email: true, role: true, name: true }\<close>\<close>
  "select_public u =
     \<lparr>up_id = u_id u, up_email = u_email u, up_role = u_role u, up_name = u_name u\<rparr>"

definition select_participant :: "user \<Rightarrow> participant" where
  \<comment> \<open>\<^verbatim>\<open>select: { id: true, name: true, email: true, profilePictureId: true }\<close>\<close>
  "select_participant u =
     \<lparr>p_id = u_id u, p_name = u_name u, p_email = u_email u,
      p_profilePictureId = u_profilePictureId u\<rparr>"

record jwt_payload =
  sub :: "string option"
  jwt_email :: string
  jwt_role :: string

record socket =
  sock_id :: socket_id
  hs_authorization :: "string option"
  hs_auth_token :: "string option"
  data_userId :: "string option"
  data_user :: "jwt_payload option"

datatype conversation_status = ACTIVE | ARCHIVED | BLOCKED

record status_row =
  st_userId :: string
  st_status :: string

record message =
  m_id :: string
  m_conversationId :: string
  m_sender :: participant
  m_content :: string
  m_statuses :: "status_row list"
  m_file :: "string option"
  m_createdAt :: nat

text \<open>
  Rows are held with the relations that the queries \<^verbatim>\<open>include\<close> already resolved:
  a conversation carries its initiator, its receiver and its last message, a message its
  sender. The foreign keys \<^verbatim>\<open>initiatorId\<close>, \<^verbatim>\<open>receiverId\<close> and \<^verbatim>\<open>senderId\<close>
  are the ids of these nested rows. The narrower \<^verbatim>\<open>select\<close> lists on a message's
  sender are not distinguished.
\<close>

record conversation =
  c_id :: string
  c_initiator :: participant
  c_receiver :: participant
  c_status :: conversation_status
  c_lastMessage :: "message option"
  c_createdAt :: nat
  c_updatedAt :: nat

definition c_initiatorId :: "conversation \<Rightarrow> string" where
  "c_initiatorId c = p_id (c_initiator c)"

definition c_receiverId :: "conversation \<Rightarrow> string" where
  "c_receiverId c = p_id (c_receiver c)"

definition m_senderId :: "message \<Rightarrow> string" where
  "m_senderId m = p_id (m_sender m)"

record notification_payload =
  np_type :: string
  np_title :: string
  np_message :: string
  np_meta :: "string option"

record notification =
  n_id :: string
  n_type :: string
  n_title :: string
  n_message :: string
  n_meta :: string
  n_users :: "string list"

datatype jsnum = Num int | Infinity | NaN

record pagination =
  pg_page :: int
  pg_limit :: int
  pg_total :: nat
  pg_totalPages :: jsnum

record summary =
  s_id :: string
  s_participant :: participant
  s_status :: conversation_status
  s_createdAt :: nat
  s_updatedAt :: nat

record list_item =
  li_id :: string
  li_participant :: participant
  li_lastMessage :: "message option"
  li_unreadCount :: nat
  li_status :: conversation_status
  li_createdAt :: nat
  li_updatedAt :: nat

record initiated =
  in_id :: string
  in_participant :: participant
  in_lastMessage :: "message option"
  in_status :: conversation_status
  in_createdAt :: nat
  in_updatedAt :: nat

datatype data =
    UserData user_public
  | ConversationListData "list_item list" pagination
  | ConversationData summary "message list" pagination
  | InitiatedData initiated
  | StatusData summary
  | SuccessTrue
  | ActionData string string

text \<open>
  Modelled from the spec: \<^verbatim>\<open>successResponse\<close> and \<^verbatim>\<open>errorResponse\<close> of
  \<^verbatim>\<open>common/utils/response.util\<close> are not among the sources. The spec gives the
  uniform envelope \<^verbatim>\<open>{success, data?, message?}\<close>; \<open>SuccessResponse d\<close> stands
  for \<^verbatim>\<open>successResponse(d)\<close> and \<open>ErrorResponse m\<close> for \<^verbatim>\<open>errorResponse(null, m)\<close>.
\<close>

datatype response = SuccessResponse data | ErrorResponse string

datatype body =
    Envelope response
  | NotificationBody notification_payload string
    \<comment> \<open>\<^verbatim>\<open>{ ...data, notificationId }\<close>\<close>

text \<open>
  What a handler does to the transport, in the order it does it.
  \<open>EmitToUserFirstSocket\<close> is the call of \<^verbatim>\<open>ChatGateway.emitToUserFirstSocket\<close>,
  whose body is not among the sources: the call is recorded with its arguments, and
  which connections of the user it reaches is left open.
\<close>

datatype effect =
    ClientEmit socket_id string body
  | ServerEmitTo socket_id string body
  | ClientJoin socket_id string
  | ClientLeave socket_id string
  | ClientDisconnect socket_id
  | EmitToUserFirstSocket user_id string body

section \<open>The persistent store\<close>

text \<open>
  The tables the handlers reach through the Prisma client. While \<open>outage\<close> holds an
  error, every call of the client throws it. Ids and timestamps that the store assigns
  to a new or updated row are arguments of the operations (the schema is not among the
  sources); a conversation is taken to refresh \<^verbatim>\<open>updatedAt\<close> when it is updated.
\<close>

record store =
  users :: "user list"
  conversations :: "conversation list"
  messages :: "message list"
  notifications :: "notification list"
  outage :: "exn option"

definition request_rejected :: exn where
  \<comment> \<open>the client refusing one request (a negative \<^verbatim>\<open>skip\<close>, a dangling foreign key);
      the text of its message is not among the sources, one fixed text stands for it\<close>
  "request_rejected = Exn (Some ''Invalid store request'')"

definition user_findUnique :: "store \<Rightarrow> string \<Rightarrow> exn + user option" where
  \<comment> \<open>\<^verbatim>\<open>prisma.client.user.findUnique({ where: { id } })\<close>\<close>
  "user_findUnique st uid =
     (case outage st of
        Some e \<Rightarrow> Inl e
      | None \<Rightarrow> Inr (find (\<lambda>u. u_id u = uid) (users st)))"

definition notification_create ::
  "store \<Rightarrow> string \<Rightarrow> notification_payload \<Rightarrow> string list \<Rightarrow> exn + (store \<times> notification)" where
  \<comment> \<open>\<^verbatim>\<open>prisma.client.notification.create\<close> with its nested \<^verbatim>\<open>users\<close> rows;
      \<open>nid\<close> is the id the store gives the record\<close>
  "notification_create st nid d recipients =
     (case outage st of
        Some e \<Rightarrow> Inl e
      | None \<Rightarrow>
          (let n = \<lparr>n_id = nid, n_type = np_type d, n_title = np_title d,
                    n_message = np_message d,
                    n_meta = (case np_meta d of None \<Rightarrow> ''{}'' | Some m \<Rightarrow> m),
                    n_users = recipients\<rparr>
           in Inr (st\<lparr>notifications := notifications st @ [n]\<rparr>, n)))"

section \<open>QueueGateway: handshake and notifications\<close>

definition extractToken :: "socket \<Rightarrow> string option" where
  "extractToken client =
     (let auth = (if truthy (hs_authorization client) then hs_authorization client
                  else hs_auth_token client)
      in case auth of
           None \<Rightarrow> None
         | Some a \<Rightarrow>
             if a = [] then None
             else if take 7 a = ''Bearer ''
               then Some (takeWhile (\<lambda>ch. ch \<noteq> CHR '' '') (drop 7 a))
               else Some a)"

definition emitError :: "socket \<Rightarrow> string \<Rightarrow> effect list \<times> response" where
  "emitError client msg =
     ([ServerEmitTo (sock_id client) EventsEnum_ERROR (Envelope (ErrorResponse msg))],
      ErrorResponse msg)"

definition disconnectWithError :: "socket \<Rightarrow> string \<Rightarrow> effect list" where
  "disconnectWithError client msg =
     fst (emitError client msg) @ [ClientDisconnect (sock_id client)]"

text \<open>
  \<open>secret\<close> is the outcome of \<^verbatim>\<open>configService.getOrThrow(ENVEnum.JWT_SECRET)\<close> and
  \<open>verify\<close> is \<^verbatim>\<open>jwtService.verify\<close>, taking the token and the secret; both are
  library calls that return or throw.
\<close>

definition handleConnection_try ::
  "(exn + string) \<Rightarrow> (string \<Rightarrow> string \<Rightarrow> exn + jwt_payload) \<Rightarrow> store \<Rightarrow> registry \<Rightarrow> socket
     \<Rightarrow> exn + (registry \<times> socket \<times> effect list)" where
  "handleConnection_try secret verify st clients client =
     (case extractToken client of
        None \<Rightarrow> Inr (clients, client, disconnectWithError client ''Missing token'')
      | Some token \<Rightarrow>
          if token = [] then Inr (clients, client, disconnectWithError client ''Missing token'')
          else
            (case secret of
               Inl e \<Rightarrow> Inl e
             | Inr sec \<Rightarrow>
                 (case verify token sec of
                    Inl e \<Rightarrow> Inl e
                  | Inr payload \<Rightarrow>
                      (case sub payload of
                         None \<Rightarrow>
                           Inr (clients, client, disconnectWithError client ''Invalid token'')
                       | Some subject \<Rightarrow>
                           if subject = [] then
                             Inr (clients, client, disconnectWithError client ''Invalid token'')
                           else
                             (case user_findUnique st subject of
                                Inl e \<Rightarrow> Inl e
                              | Inr None \<Rightarrow>
                                  Inr (clients, client,
                                       disconnectWithError client ''User not found'')
                              | Inr (Some u) \<Rightarrow>
                                  (let usr = select_public u;
                                       client' = client\<lparr>data_userId := Some (up_id usr),
                                                         data_user := Some payload\<rparr>
                                   in Inr (subscribeClient (up_id usr) (sock_id client') clients,
                                           client',
                                           [ClientJoin (sock_id client') (up_id usr),
                                            ClientEmit (sock_id client') EventsEnum_SUCCESS
                                              (Envelope (SuccessResponse (UserData usr)))])))))))"

definition handleConnection ::
  "(exn + string) \<Rightarrow> (string \<Rightarrow> string \<Rightarrow> exn + jwt_payload) \<Rightarrow> store \<Rightarrow> registry \<Rightarrow> socket
     \<Rightarrow> registry \<times> socket \<times> effect list" where
  "handleConnection secret verify st clients client =
     (case handleConnection_try secret verify st clients client of
        Inl err \<Rightarrow> (clients, client, disconnectWithError client (message_or err ''Auth failed''))
      | Inr r \<Rightarrow> r)"

definition handleDisconnect :: "registry \<Rightarrow> socket \<Rightarrow> registry \<times> effect list" where
  "handleDisconnect clients client =
     (case data_userId client of
        None \<Rightarrow> (clients, [])
      | Some userId \<Rightarrow>
          if userId = [] then (clients, [])
          else (unsubscribeClient userId (sock_id client) clients,
                [ClientLeave (sock_id client) userId]))"

definition notifySingleUser ::
  "registry \<Rightarrow> store \<Rightarrow> string \<Rightarrow> user_id \<Rightarrow> string \<Rightarrow> notification_payload
     \<Rightarrow> exn + (store \<times> effect list)" where
  "notifySingleUser clients st nid userId event d =
     (let cs = getClients clients userId
      in case notification_create st nid d [userId] of
           Inl e \<Rightarrow> Inl e
         | Inr (st', n) \<Rightarrow>
             Inr (st', map (\<lambda>client. ClientEmit client event (NotificationBody d (n_id n))) cs))"

definition notifyAllUsers ::
  "registry \<Rightarrow> store \<Rightarrow> string \<Rightarrow> string \<Rightarrow> notification_payload
     \<Rightarrow> exn + (store \<times> effect list)" where
  "notifyAllUsers clients st nid event d =
     (let userIds = registry_keys clients
      in if length userIds = 0 then Inr (st, [])
         else
           (case notification_create st nid d userIds of
              Inl e \<Rightarrow> Inl e
            | Inr (st', n) \<Rightarrow>
                Inr (st',
                     concat (map (\<lambda>(u, cs).
                        map (\<lambda>client. ClientEmit client event (NotificationBody d (n_id n))) cs)
                       clients))))"

section \<open>Store queries of the conversation service\<close>

definition lower_char :: "char \<Rightarrow> char" where
  "lower_char ch =
     (let n = (of_char ch :: nat)
      in if 65 \<le> n \<and> n \<le> 90 then char_of (n + 32) else ch)"

fun contains :: "string \<Rightarrow> string \<Rightarrow> bool" where
  "contains [] needle = (needle = [])"
| "contains (h # hs) needle =
     (take (length needle) (h # hs) = needle \<or> contains hs needle)"

definition contains_insensitive :: "string \<Rightarrow> string \<Rightarrow> bool" where
  \<comment> \<open>\<^verbatim>\<open>{ contains: search, mode: 'insensitive' }\<close>\<close>
  "contains_insensitive field search =
     contains (map lower_char field) (map lower_char search)"

definition where_participant :: "string \<Rightarrow> conversation \<Rightarrow> bool" where
  \<comment> \<open>\<^verbatim>\<open>OR: [{ initiatorId: userId }, { receiverId: userId }]\<close>\<close>
  "where_participant userId c \<longleftrightarrow> c_initiatorId c = userId \<or> c_receiverId c = userId"

definition where_search :: "string option \<Rightarrow> conversation \<Rightarrow> bool" where
  \<comment> \<open>the \<^verbatim>\<open>AND\<close> clause, added only \<^verbatim>\<open>if (search)\<close>\<close>
  "where_search search c =
     (if truthy search then
        (case search of
           None \<Rightarrow> True
         | Some q \<Rightarrow>
             contains_insensitive (p_name (c_initiator c)) q \<or>
             contains_insensitive (p_name (c_receiver c)) q \<or>
             (case c_lastMessage c of
                None \<Rightarrow> False
              | Some m \<Rightarrow> contains_insensitive (m_content m) q))
      else True)"

definition findMany_window :: "int \<Rightarrow> int \<Rightarrow> 'a list \<Rightarrow> exn + 'a list" where
  \<comment> \<open>\<^verbatim>\<open>skip\<close> and \<^verbatim>\<open>take\<close> of \<^verbatim>\<open>findMany\<close> on the ordered rows: a negative
      \<^verbatim>\<open>skip\<close> is refused, a negative \<^verbatim>\<open>take\<close> counts from the end of the ordering\<close>
  "findMany_window skip tk rows =
     (if skip < 0 then Inl request_rejected
      else if 0 \<le> tk then Inr (take (nat tk) (drop (nat skip) rows))
      else Inr (rev (take (nat (- tk)) (drop (nat skip) (rev rows)))))"

definition orderBy_updatedAt_desc :: "conversation list \<Rightarrow> conversation list" where
  "orderBy_updatedAt_desc cs = sort_key (\<lambda>c. - int (c_updatedAt c)) cs"

definition orderBy_createdAt_desc :: "message list \<Rightarrow> message list" where
  "orderBy_createdAt_desc ms = sort_key (\<lambda>m. - int (m_createdAt m)) ms"

definition js_ceil_div :: "nat \<Rightarrow> int \<Rightarrow> jsnum" where
  \<comment> \<open>\<^verbatim>\<open>Math.ceil(total / limit)\<close> on integers\<close>
  "js_ceil_div total' limit =
     (if limit = 0 then (if total' = 0 then NaN else Infinity)
      else Num (- ((- int total') div limit)))"

definition statuses_where :: "string \<Rightarrow> message \<Rightarrow> message" where
  \<comment> \<open>\<^verbatim>\<open>statuses: { where: { userId } }\<close>\<close>
  "statuses_where userId m =
     m\<lparr>m_statuses := filter (\<lambda>r. st_userId r = userId) (m_statuses m)\<rparr>"

definition unread_where :: "string \<Rightarrow> message \<Rightarrow> bool" where
  \<comment> \<open>\<^verbatim>\<open>senderId: { not: userId }, statuses: { some: { userId, status: { not: 'READ' } } }\<close>\<close>
  "unread_where userId m \<longleftrightarrow>
     m_senderId m \<noteq> userId \<and>
     list_ex (\<lambda>r. st_userId r = userId \<and> st_status r \<noteq> ''READ'') (m_statuses m)"

definition conversation_messages :: "store \<Rightarrow> string \<Rightarrow> message list" where
  "conversation_messages st conversationId =
     filter (\<lambda>m. m_conversationId m = conversationId) (messages st)"

definition otherParticipant :: "string \<Rightarrow> conversation \<Rightarrow> participant" where
  "otherParticipant userId c =
     (if c_initiatorId c = userId then c_receiver c else c_initiator c)"

definition conversation_findFirst :: "store \<Rightarrow> (conversation \<Rightarrow> bool) \<Rightarrow> exn + conversation option" where
  "conversation_findFirst st cond =
     (case outage st of
        Some e \<Rightarrow> Inl e
      | None \<Rightarrow> Inr (find cond (conversations st)))"

definition new_conversation :: "string \<Rightarrow> nat \<Rightarrow> user \<Rightarrow> user \<Rightarrow> conversation" where
  \<comment> \<open>the row \<^verbatim>\<open>privateConversation.create\<close> inserts: the id \<open>cid\<close> and the time \<open>now\<close>
      come from the store, there is no last message yet and the status is \<open>ACTIVE\<close>\<close>
  "new_conversation cid now i r =
     \<lparr>c_id = cid, c_initiator = select_participant i, c_receiver = select_participant r,
      c_status = ACTIVE, c_lastMessage = None, c_createdAt = now, c_updatedAt = now\<rparr>"

definition conversation_create ::
  "store \<Rightarrow> string \<Rightarrow> nat \<Rightarrow> string \<Rightarrow> string \<Rightarrow> exn + (store \<times> conversation)" where
  \<comment> \<open>\<^verbatim>\<open>privateConversation.create({ data: { initiatorId, receiverId } })\<close>; an id that
      names no user is a dangling foreign key\<close>
  "conversation_create st cid now initiatorId recvId =
     (case outage st of
        Some e \<Rightarrow> Inl e
      | None \<Rightarrow>
          (case (find (\<lambda>u. u_id u = initiatorId) (users st),
                 find (\<lambda>u. u_id u = recvId) (users st)) of
             (Some i, Some r) \<Rightarrow>
               (let c = new_conversation cid now i r
                in Inr (st\<lparr>conversations := conversations st @ [c]\<rparr>, c))
           | _ \<Rightarrow> Inl request_rejected))"

definition conversation_delete :: "store \<Rightarrow> string \<Rightarrow> exn + store" where
  \<comment> \<open>\<^verbatim>\<open>privateConversation.delete({ where: { id } })\<close>; what becomes of the rows that
      refer to the conversation is not modelled\<close>
  "conversation_delete st conversationId =
     (case outage st of
        Some e \<Rightarrow> Inl e
      | None \<Rightarrow>
          (case find (\<lambda>c. c_id c = conversationId) (conversations st) of
             None \<Rightarrow> Inl request_rejected
           | Some _ \<Rightarrow>
               Inr (st\<lparr>conversations :=
                      filter (\<lambda>c. c_id c \<noteq> conversationId) (conversations st)\<rparr>)))"

definition update_status_rows ::
  "nat \<Rightarrow> string \<Rightarrow> conversation_status \<Rightarrow> conversation list \<Rightarrow> conversation list" where
  "update_status_rows now conversationId status rows =
     map (\<lambda>x. if c_id x = conversationId
               then x\<lparr>c_status := status, c_updatedAt := now\<rparr> else x) rows"

definition conversation_update ::
  "store \<Rightarrow> nat \<Rightarrow> string \<Rightarrow> conversation_status \<Rightarrow> exn + (store \<times> conversation)" where
  \<comment> \<open>\<^verbatim>\<open>privateConversation.update({ where: { id }, data: { status } })\<close>\<close>
  "conversation_update st now conversationId status =
     (case outage st of
        Some e \<Rightarrow> Inl e
      | None \<Rightarrow>
          (case find (\<lambda>c. c_id c = conversationId) (conversations st) of
             None \<Rightarrow> Inl request_rejected
           | Some c \<Rightarrow>
               Inr (st\<lparr>conversations :=
                      update_status_rows now conversationId status (conversations st)\<rparr>,
                    c\<lparr>c_status := status, c_updatedAt := now\<rparr>)))"

section \<open>ConversationService\<close>

text \<open>
  Modelled from the spec: \<^verbatim>\<open>ChatGateway.emitError\<close> is not among the sources. The spec
  has every handler failure turned into an error envelope emitted to the originating
  connection; the definition follows \<^verbatim>\<open>QueueGateway.emitError\<close>, which is among them.
\<close>

definition chatGateway_emitError :: "socket \<Rightarrow> string \<Rightarrow> effect list \<times> response" where
  "chatGateway_emitError client msg = emitError client msg"

record LoadConversationsDto =
  lc_page :: "int option"
  lc_limit :: "int option"
  lc_search :: "string option"

record LoadSingleConversationDto =
  ls_conversationId :: string
  ls_page :: "int option"
  ls_limit :: "int option"

definition unreadCount :: "store \<Rightarrow> string \<Rightarrow> conversation \<Rightarrow> nat" where
  \<comment> \<open>\<^verbatim>\<open>conv.messages.length\<close> of the filtered \<^verbatim>\<open>messages\<close> relation\<close>
  "unreadCount st userId conv =
     length (filter (unread_where userId) (conversation_messages st (c_id conv)))"

definition transformConversation :: "store \<Rightarrow> string \<Rightarrow> conversation \<Rightarrow> list_item" where
  "transformConversation st userId conv =
     \<lparr>li_id = c_id conv,
      li_participant = otherParticipant userId conv,
      li_lastMessage = map_option (statuses_where userId) (c_lastMessage conv),
      li_unreadCount = unreadCount st userId conv,
      li_status = c_status conv,
      li_createdAt = c_createdAt conv,
      li_updatedAt = c_updatedAt conv\<rparr>"

definition loadConversations_where :: "string \<Rightarrow> string option \<Rightarrow> conversation \<Rightarrow> bool" where
  "loadConversations_where userId search c \<longleftrightarrow>
     where_participant userId c \<and> where_search search c"

definition loadConversations_try ::
  "store \<Rightarrow> socket \<Rightarrow> string \<Rightarrow> LoadConversationsDto \<Rightarrow> exn + (effect list \<times> response)" where
  "loadConversations_try st client userId dto =
     (let page = (case lc_page dto of None \<Rightarrow> 1 | Some p \<Rightarrow> p);
          limit = (case lc_limit dto of None \<Rightarrow> 20 | Some l \<Rightarrow> l);
          search = lc_search dto;
          skip = (page - 1) * limit;
          matching = filter (loadConversations_where userId search) (conversations st)
      in case outage st of
           Some e \<Rightarrow> Inl e
         | None \<Rightarrow>
             (case findMany_window skip limit (orderBy_updatedAt_desc matching) of
                Inl e \<Rightarrow> Inl e
              | Inr convs \<Rightarrow>
                  (let total' = length matching;
                       transformedConversations = map (transformConversation st userId) convs;
                       result = ConversationListData transformedConversations
                         \<lparr>pg_page = page, pg_limit = limit, pg_total = total',
                          pg_totalPages = js_ceil_div total' limit\<rparr>
                   in Inr ([ClientEmit (sock_id client) EventsEnum_CONVERSATION_LIST_RESPONSE
                              (Envelope (SuccessResponse result))],
                           SuccessResponse result))))"

definition loadConversations ::
  "store \<Rightarrow> socket \<Rightarrow> LoadConversationsDto \<Rightarrow> effect list \<times> response" where
  "loadConversations st client dto =
     (case data_userId client of
        None \<Rightarrow> chatGateway_emitError client ''Unauthorized''
      | Some userId \<Rightarrow>
          if userId = [] then chatGateway_emitError client ''Unauthorized''
          else
            (case loadConversations_try st client userId dto of
               Inl err \<Rightarrow>
                 chatGateway_emitError client (message_or err ''Failed to load conversations'')
             | Inr r \<Rightarrow> r))"

definition loadSingleConversation_try ::
  "store \<Rightarrow> socket \<Rightarrow> string \<Rightarrow> LoadSingleConversationDto \<Rightarrow> exn + (effect list \<times> response)" where
  "loadSingleConversation_try st client userId dto =
     (let conversationId = ls_conversationId dto;
          page = (case ls_page dto of None \<Rightarrow> 1 | Some p \<Rightarrow> p);
          limit = (case ls_limit dto of None \<Rightarrow> 50 | Some l \<Rightarrow> l);
          skip = (page - 1) * limit
      in case conversation_findFirst st
                (\<lambda>c. c_id c = conversationId \<and> where_participant userId c) of
           Inl e \<Rightarrow> Inl e
         | Inr None \<Rightarrow>
             Inr (chatGateway_emitError client ''Conversation not found or unauthorized'')
         | Inr (Some conversation) \<Rightarrow>
             (case findMany_window skip limit
                     (orderBy_createdAt_desc (conversation_messages st conversationId)) of
                Inl e \<Rightarrow> Inl e
              | Inr msgs \<Rightarrow>
                  (let totalMessages = length (conversation_messages st conversationId);
                       result = ConversationData
                         \<lparr>s_id = c_id conversation,
                          s_participant = otherParticipant userId conversation,
                          s_status = c_status conversation,
                          s_createdAt = c_createdAt conversation,
                          s_updatedAt = c_updatedAt conversation\<rparr>
                         (rev (map (statuses_where userId) msgs))
                         \<lparr>pg_page = page, pg_limit = limit, pg_total = totalMessages,
                          pg_totalPages = js_ceil_div totalMessages limit\<rparr>
                   in Inr ([ClientEmit (sock_id client) EventsEnum_CONVERSATION_RESPONSE
                              (Envelope (SuccessResponse result))],
                           SuccessResponse result))))"

definition loadSingleConversation ::
  "store \<Rightarrow> socket \<Rightarrow> LoadSingleConversationDto \<Rightarrow> effect list \<times> response" where
  "loadSingleConversation st client dto =
     (case data_userId client of
        None \<Rightarrow> chatGateway_emitError client ''Unauthorized''
      | Some userId \<Rightarrow>
          if userId = [] then chatGateway_emitError client ''Unauthorized''
          else
            (case loadSingleConversation_try st client userId dto of
               Inl err \<Rightarrow>
                 chatGateway_emitError client (message_or err ''Failed to load conversation'')
             | Inr r \<Rightarrow> r))"

definition initiate_where :: "string \<Rightarrow> string \<Rightarrow> conversation \<Rightarrow> bool" where
  \<comment> \<open>\<^verbatim>\<open>OR: [{ initiatorId, receiverId: targetUserId },
      { initiatorId: targetUserId, receiverId: initiatorId }]\<close>\<close>
  "initiate_where initiatorId targetUserId c \<longleftrightarrow>
     (c_initiatorId c = initiatorId \<and> c_receiverId c = targetUserId) \<or>
     (c_initiatorId c = targetUserId \<and> c_receiverId c = initiatorId)"

definition initiate_result :: "string \<Rightarrow> conversation \<Rightarrow> initiated" where
  "initiate_result initiatorId conversation =
     \<lparr>in_id = c_id conversation,
      in_participant = otherParticipant initiatorId conversation,
      in_lastMessage = c_lastMessage conversation,
      in_status = c_status conversation,
      in_createdAt = c_createdAt conversation,
      in_updatedAt = c_updatedAt conversation\<rparr>"

definition initiate_finish ::
  "store \<Rightarrow> socket \<Rightarrow> string \<Rightarrow> conversation \<Rightarrow> store \<times> effect list \<times> response" where
  \<comment> \<open>the part of \<^verbatim>\<open>initiateConversationWithUser\<close> after the conversation is at hand\<close>
  "initiate_finish st client initiatorId conversation =
     (let result = initiate_result initiatorId conversation;
          otherUserId = p_id (in_participant result)
      in (st,
          [ClientEmit (sock_id client) EventsEnum_SUCCESS
             (Envelope (SuccessResponse (InitiatedData result))),
           EmitToUserFirstSocket otherUserId EventsEnum_CONVERSATION_UPDATE
             (Envelope (SuccessResponse (InitiatedData result)))],
          SuccessResponse (InitiatedData result)))"

definition initiateConversationWithUser_try ::
  "store \<Rightarrow> string \<Rightarrow> nat \<Rightarrow> socket \<Rightarrow> string \<Rightarrow> string
     \<Rightarrow> exn + (store \<times> effect list \<times> response)" where
  "initiateConversationWithUser_try st cid now client initiatorId targetUserId =
     (if initiatorId = targetUserId then
        (let (effs, r) = chatGateway_emitError client
                           ''Cannot initiate conversation with yourself''
         in Inr (st, effs, r))
      else
        (case conversation_findFirst st (initiate_where initiatorId targetUserId) of
           Inl e \<Rightarrow> Inl e
         | Inr (Some conversation) \<Rightarrow> Inr (initiate_finish st client initiatorId conversation)
         | Inr None \<Rightarrow>
             (case user_findUnique st targetUserId of
                Inl e \<Rightarrow> Inl e
              | Inr None \<Rightarrow>
                  (let (effs, r) = chatGateway_emitError client ''Target user not found''
                   in Inr (st, effs, r))
              | Inr (Some targetUser) \<Rightarrow>
                  (case conversation_create st cid now initiatorId targetUserId of
                     Inl e \<Rightarrow> Inl e
                   | Inr (st', conversation) \<Rightarrow>
                       Inr (initiate_finish st' client initiatorId conversation)))))"

text \<open>
  \<open>cid\<close> and \<open>now\<close> are the id and the creation time the store would give a new row.
\<close>

definition initiateConversationWithUser ::
  "store \<Rightarrow> string \<Rightarrow> nat \<Rightarrow> socket \<Rightarrow> string \<Rightarrow> store \<times> effect list \<times> response" where
  "initiateConversationWithUser st cid now client targetUserId =
     (case data_userId client of
        None \<Rightarrow> (let (effs, r) = chatGateway_emitError client ''Unauthorized'' in (st, effs, r))
      | Some initiatorId \<Rightarrow>
          if initiatorId = [] then
            (let (effs, r) = chatGateway_emitError client ''Unauthorized'' in (st, effs, r))
          else
            (case initiateConversationWithUser_try st cid now client initiatorId targetUserId of
               Inl err \<Rightarrow>
                 (let (effs, r) = chatGateway_emitError client
                                    (message_or err ''Failed to initiate conversation'')
                  in (st, effs, r))
             | Inr r \<Rightarrow> r))"

definition deleteConversation_try ::
  "store \<Rightarrow> socket \<Rightarrow> string \<Rightarrow> string \<Rightarrow> exn + (store \<times> effect list \<times> response)" where
  "deleteConversation_try st client userId conversationId =
     (case conversation_findFirst st
             (\<lambda>c. c_id c = conversationId \<and> where_participant userId c) of
        Inl e \<Rightarrow> Inl e
      | Inr None \<Rightarrow>
          (let (effs, r) = chatGateway_emitError client ''Conversation not found or unauthorized''
           in Inr (st, effs, r))
      | Inr (Some conversationData) \<Rightarrow>
          (let otherUserId = (if c_initiatorId conversationData = userId
                              then c_receiverId conversationData
                              else c_initiatorId conversationData)
           in case conversation_delete st conversationId of
                Inl e \<Rightarrow> Inl e
              | Inr st' \<Rightarrow>
                  Inr (st',
                       [ClientEmit (sock_id client) EventsEnum_SUCCESS
                          (Envelope (SuccessResponse SuccessTrue)),
                        EmitToUserFirstSocket otherUserId EventsEnum_CONVERSATION_UPDATE
                          (Envelope (SuccessResponse (ActionData conversationId ''deleted'')))],
                       SuccessResponse SuccessTrue)))"

definition deleteConversation ::
  "store \<Rightarrow> socket \<Rightarrow> string \<Rightarrow> store \<times> effect list \<times> response" where
  "deleteConversation st client conversationId =
     (case data_userId client of
        None \<Rightarrow> (let (effs, r) = chatGateway_emitError client ''Unauthorized'' in (st, effs, r))
      | Some userId \<Rightarrow>
          if userId = [] then
            (let (effs, r) = chatGateway_emitError client ''Unauthorized'' in (st, effs, r))
          else
            (case deleteConversation_try st client userId conversationId of
               Inl err \<Rightarrow>
                 (let (effs, r) = chatGateway_emitError client
                                    (message_or err ''Failed to delete conversation'')
                  in (st, effs, r))
             | Inr r \<Rightarrow> r))"

definition status_projection :: "string \<Rightarrow> conversation \<Rightarrow> summary" where
  \<comment> \<open>the object \<^verbatim>\<open>updateConversationStatus\<close> returns\<close>
  "status_projection userId updated =
     \<lparr>s_id = c_id updated,
      s_participant = otherParticipant userId updated,
      s_status = c_status updated,
      s_createdAt = c_createdAt updated,
      s_updatedAt = c_updatedAt updated\<rparr>"

definition updateConversationStatus ::
  "store \<Rightarrow> nat \<Rightarrow> string \<Rightarrow> string \<Rightarrow> conversation_status \<Rightarrow> exn + (store \<times> summary)" where
  "updateConversationStatus st now userId conversationId status =
     (case conversation_findFirst st
             (\<lambda>c. c_id c = conversationId \<and> where_participant userId c) of
        Inl e \<Rightarrow> Inl e
      | Inr None \<Rightarrow> Inl (Exn (Some ''Conversation not found or unauthorized''))
      | Inr (Some conversation) \<Rightarrow>
          (case conversation_update st now conversationId status of
             Inl e \<Rightarrow> Inl e
           | Inr (st', updated) \<Rightarrow>
               Inr (st', status_projection userId updated)))"

definition archiveConversation ::
  "store \<Rightarrow> nat \<Rightarrow> socket \<Rightarrow> string \<Rightarrow> store \<times> effect list \<times> response" where
  "archiveConversation st now client conversationId =
     (case data_userId client of
        None \<Rightarrow> (let (effs, r) = chatGateway_emitError client ''Unauthorized'' in (st, effs, r))
      | Some userId \<Rightarrow>
          if userId = [] then
            (let (effs, r) = chatGateway_emitError client ''Unauthorized'' in (st, effs, r))
          else
            (case updateConversationStatus st now userId conversationId ARCHIVED of
               Inl err \<Rightarrow>
                 (let (effs, r) = chatGateway_emitError client
                                    (message_or err ''Failed to archive conversation'')
                  in (st, effs, r))
             | Inr (st', conversation) \<Rightarrow>
                 (st',
                  [ClientEmit (sock_id client) EventsEnum_CONVERSATION_UPDATE
                     (Envelope (SuccessResponse (StatusData conversation)))],
                  SuccessResponse (StatusData conversation))))"

definition blockConversation ::
  "store \<Rightarrow> nat \<Rightarrow> socket \<Rightarrow> string \<Rightarrow> store \<times> effect list \<times> response" where
  "blockConversation st now client conversationId =
     (case data_userId client of
        None \<Rightarrow> (let (effs, r) = chatGateway_emitError client ''Unauthorized'' in (st, effs, r))
      | Some userId \<Rightarrow>
          if userId = [] then
            (let (effs, r) = chatGateway_emitError client ''Unauthorized'' in (st, effs, r))
          else
            (case updateConversationStatus st now userId conversationId BLOCKED of
               Inl err \<Rightarrow>
                 (let (effs, r) = chatGateway_emitError client
                                    (message_or err ''Failed to block conversation'')
                  in (st, effs, r))
             | Inr (st', conversation) \<Rightarrow>
                 (let otherUserId = p_id (s_participant conversation)
                  in (st',
                      [ClientEmit (sock_id client) EventsEnum_CONVERSATION_UPDATE
                         (Envelope (SuccessResponse (StatusData conversation))),
                       EmitToUserFirstSocket otherUserId EventsEnum_CONVERSATION_UPDATE
                         (Envelope (SuccessResponse (ActionData conversationId ''blocked'')))],
                      SuccessResponse (StatusData conversation)))))"

definition unblockConversation ::
  "store \<Rightarrow> nat \<Rightarrow> socket \<Rightarrow> string \<Rightarrow> store \<times> effect list \<times> response" where
  "unblockConversation st now client conversationId =
     (case data_userId client of
        None \<Rightarrow> (let (effs, r) = chatGateway_emitError client ''Unauthorized'' in (st, effs, r))
      | Some userId \<Rightarrow>
          if userId = [] then
            (let (effs, r) = chatGateway_emitError client ''Unauthorized'' in (st, effs, r))
          else
            (case updateConversationStatus st now userId conversationId ACTIVE of
               Inl err \<Rightarrow>
                 (let (effs, r) = chatGateway_emitError client
                                    (message_or err ''Failed to unblock conversation'')
                  in (st, effs, r))
             | Inr (st', conversation) \<Rightarrow>
                 (let otherUserId = p_id (s_participant conversation)
                  in (st',
                      [ClientEmit (sock_id client) EventsEnum_CONVERSATION_UPDATE
                         (Envelope (SuccessResponse (StatusData conversation))),
                       EmitToUserFirstSocket otherUserId EventsEnum_CONVERSATION_UPDATE
                         (Envelope (SuccessResponse (ActionData conversationId ''unblocked'')))],
                      SuccessResponse (StatusData conversation)))))"

section \<open>Observations and example data\<close>

definition status_of :: "store \<Rightarrow> string \<Rightarrow> conversation_status option" where
  \<comment> \<open>the stored status of the conversation with the given id\<close>
  "status_of st conversationId =
     map_option c_status (find (\<lambda>c. c_id c = conversationId) (conversations st))"

definition initiated_id :: "response \<Rightarrow> string option" where
  \<comment> \<open>the conversation id in the answer of \<^verbatim>\<open>initiateConversationWithUser\<close>, if it
      is a success\<close>
  "initiated_id r =
     (case r of SuccessResponse (InitiatedData x) \<Rightarrow> Some (in_id x) | _ \<Rightarrow> None)"

definition rows_of_pair :: "store \<Rightarrow> string \<Rightarrow> string \<Rightarrow> conversation list" where
  \<comment> \<open>the conversation rows of an unordered pair of users\<close>
  "rows_of_pair st a b = filter (initiate_where a b) (conversations st)"

definition listed :: "response \<Rightarrow> list_item list" where
  \<comment> \<open>the conversations in the answer of \<^verbatim>\<open>loadConversations\<close>\<close>
  "listed r =
     (case r of SuccessResponse (ConversationListData items pg) \<Rightarrow> items | _ \<Rightarrow> [])"

definition paging :: "response \<Rightarrow> pagination option" where
  \<comment> \<open>the pagination block in the answer of \<^verbatim>\<open>loadConversations\<close>\<close>
  "paging r =
     (case r of SuccessResponse (ConversationListData items pg) \<Rightarrow> Some pg | _ \<Rightarrow> None)"

text \<open>
  The unread count in the spec's words: the messages of the conversation sent by the
  counterpart whose status for the user is not \<open>READ\<close>. \<open>status_for\<close> is the status
  a message carries for one recipient.
\<close>

definition status_for :: "string \<Rightarrow> message \<Rightarrow> string option" where
  "status_for userId m =
     map_option st_status (find (\<lambda>r. st_userId r = userId) (m_statuses m))"

definition counterpart_messages :: "store \<Rightarrow> string \<Rightarrow> conversation \<Rightarrow> message list" where
  "counterpart_messages st userId c =
     filter (\<lambda>m. m_conversationId m = c_id c \<and>
                 m_senderId m = p_id (otherParticipant userId c)) (messages st)"

definition spec_unreadCount :: "store \<Rightarrow> string \<Rightarrow> conversation \<Rightarrow> nat" where
  "spec_unreadCount st userId c =
     length (filter (\<lambda>m. case status_for userId m of None \<Rightarrow> False | Some s \<Rightarrow> s \<noteq> ''READ'')
               (counterpart_messages st userId c))"

definition conversation_wf :: "store \<Rightarrow> conversation \<Rightarrow> bool" where
  \<comment> \<open>two different participants; every message of the conversation is sent by one of
      them and has at most one status row per user\<close>
  "conversation_wf st c \<longleftrightarrow>
     c_initiatorId c \<noteq> c_receiverId c \<and>
     list_all (\<lambda>m. (m_senderId m = c_initiatorId c \<or> m_senderId m = c_receiverId c) \<and>
                   distinct (map st_userId (m_statuses m)))
       (conversation_messages st (c_id c))"

definition reaches_other :: "socket_id \<Rightarrow> effect \<Rightarrow> bool" where
  \<comment> \<open>an effect that sends something to anyone but the caller's own connection\<close>
  "reaches_other sid e =
     (case e of
        ClientEmit s _ _ \<Rightarrow> s \<noteq> sid
      | ServerEmitTo s _ _ \<Rightarrow> s \<noteq> sid
      | EmitToUserFirstSocket _ _ _ \<Rightarrow> True
      | _ \<Rightarrow> False)"

definition alice :: user where
  "alice = \<lparr>u_id = ''alice'', u_email = ''alice@example.org'', u_role = ''USER'',
            u_name = ''Alice'', u_profilePictureId = None\<rparr>"

definition bob :: user where
  "bob = \<lparr>u_id = ''bob'', u_email = ''bob@example.org'', u_role = ''USER'',
          u_name = ''Bob'', u_profilePictureId = None\<rparr>"

definition carol :: user where
  "carol = \<lparr>u_id = ''carol'', u_email = ''carol@example.org'', u_role = ''ADMIN'',
            u_name = ''Carol'', u_profilePictureId = None\<rparr>"

definition conv_ab :: conversation where
  "conv_ab = \<lparr>c_id = ''c1'', c_initiator = select_participant alice,
              c_receiver = select_participant bob, c_status = ARCHIVED,
              c_lastMessage = None, c_createdAt = 10, c_updatedAt = 30\<rparr>"

definition conv_bc :: conversation where
  "conv_bc = \<lparr>c_id = ''c2'', c_initiator = select_participant bob,
              c_receiver = select_participant carol, c_status = ACTIVE,
              c_lastMessage = None, c_createdAt = 20, c_updatedAt = 40\<rparr>"

definition msg_from_bob :: "string \<Rightarrow> nat \<Rightarrow> string \<Rightarrow> message" where
  "msg_from_bob mid t status =
     \<lparr>m_id = mid, m_conversationId = ''c1'', m_sender = select_participant bob,
      m_content = ''hello'', m_statuses = [\<lparr>st_userId = ''alice'', st_status = status\<rparr>],
      m_file = None, m_createdAt = t\<rparr>"

definition example_store :: store where
  "example_store =
     \<lparr>users = [alice, bob, carol],
      conversations = [conv_ab, conv_bc],
      messages = [msg_from_bob ''m1'' 11 ''READ'', msg_from_bob ''m2'' 12 ''DELIVERED'',
                  msg_from_bob ''m3'' 13 ''SENT''],
      notifications = [],
      outage = None\<rparr>"

definition numbered_conversation :: "nat \<Rightarrow> conversation" where
  \<comment> \<open>the \<open>n\<close>-th of a series of conversations between Alice and Bob, updated at time \<open>n\<close>\<close>
  "numbered_conversation n =
     conv_ab\<lparr>c_id := replicate (Suc n) (CHR ''c''), c_updatedAt := n\<rparr>"

definition busy_store :: store where
  \<comment> \<open>a store in which Alice has 45 conversations\<close>
  "busy_store = example_store\<lparr>conversations := map numbered_conversation [0..<45]\<rparr>"

definition socket_of :: "socket_id \<Rightarrow> string option \<Rightarrow> socket" where
  \<comment> \<open>a connection whose handshake carried \<^verbatim>\<open>Authorization: Bearer token\<close>, bound to
      the given user id (if any)\<close>
  "socket_of sid uid =
     \<lparr>sock_id = sid, hs_authorization = Some ''Bearer token'', hs_auth_token = None,
      data_userId = uid, data_user = None\<rparr>"

definition example_payload :: notification_payload where
  "example_payload =
     \<lparr>np_type = ''INFO'', np_title = ''Title'', np_message = ''Body'', np_meta = None\<rparr>"

section \<open>The registry invariant\<close>

lemma set_add_nonempty: "set_add c s \<noteq> []"
  by (auto simp: set_add_def)

lemma set_add_distinct: "distinct s \<Longrightarrow> distinct (set_add c s)"
  by (simp add: set_add_def)

lemma list_all_update:
  "list_all P al \<Longrightarrow> P (k, v) \<Longrightarrow> list_all P (AList.update k v al)"
  by (induction al) auto

lemma list_all_delete:
  "list_all P al \<Longrightarrow> list_all P (AList.delete k al)"
  by (induction al) auto

lemma registry_inv_lookup:
  assumes "registry_inv clients" and "map_of clients u = Some s"
  shows "s \<noteq> [] \<and> distinct s"
proof -
  from assms(2) have "(u, s) \<in> set clients" by (rule map_of_SomeD)
  with assms(1) show ?thesis
    by (auto simp: registry_inv_def list_all_iff)
qed

lemma subscribeClient_inv:
  assumes "registry_inv clients"
  shows "registry_inv (subscribeClient u c clients)"
proof -
  define s where "s = (case map_of clients u of None \<Rightarrow> [] | Some s0 \<Rightarrow> s0)"
  have "distinct s"
  proof (cases "map_of clients u")
    case None
    then show ?thesis by (simp add: s_def)
  next
    case (Some s0)
    with registry_inv_lookup [OF assms Some] show ?thesis by (simp add: s_def)
  qed
  then have p: "(\<lambda>(u, s). s \<noteq> [] \<and> distinct s) (u, set_add c s)"
    by (simp add: set_add_nonempty set_add_distinct)
  have a: "list_all (\<lambda>(u, s). s \<noteq> [] \<and> distinct s) clients"
    using assms by (simp add: registry_inv_def)
  have "distinct (map fst (AList.update u (set_add c s) clients))"
    using assms by (simp add: registry_inv_def AList.distinct_update)
  moreover have "list_all (\<lambda>(u, s). s \<noteq> [] \<and> distinct s)
      (AList.update u (set_add c s) clients)"
    using a p by (rule list_all_update)
  ultimately show ?thesis
    by (simp add: registry_inv_def subscribeClient_def s_def)
qed

lemma unsubscribeClient_inv:
  assumes "registry_inv clients"
  shows "registry_inv (unsubscribeClient u c clients)"
proof (cases "map_of clients u")
  case None
  with assms show ?thesis by (simp add: unsubscribeClient_def)
next
  case (Some s)
  have d: "distinct s" using registry_inv_lookup [OF assms Some] by simp
  have a: "list_all (\<lambda>(u, s). s \<noteq> [] \<and> distinct s) clients"
    using assms by (simp add: registry_inv_def)
  show ?thesis
  proof (cases "set_delete c s = []")
    case True
    have "distinct (map fst (AList.delete u clients))"
      using assms by (simp add: registry_inv_def AList.distinct_delete)
    moreover have "list_all (\<lambda>(u, s). s \<noteq> [] \<and> distinct s) (AList.delete u clients)"
      using a by (rule list_all_delete)
    ultimately show ?thesis
      using Some True by (simp add: registry_inv_def unsubscribeClient_def)
  next
    case False
    moreover have "distinct (set_delete c s)"
      using d by (simp add: set_delete_def distinct_removeAll)
    ultimately have p: "(\<lambda>(u, s). s \<noteq> [] \<and> distinct s) (u, set_delete c s)"
      by simp
    have "distinct (map fst (AList.update u (set_delete c s) clients))"
      using assms by (simp add: registry_inv_def AList.distinct_update)
    moreover have "list_all (\<lambda>(u, s). s \<noteq> [] \<and> distinct s)
        (AList.update u (set_delete c s) clients)"
      using a p by (rule list_all_update)
    ultimately show ?thesis
      using Some False by (simp add: registry_inv_def unsubscribeClient_def)
  qed
qed

lemma getClients_absent:
  "u \<notin> set (registry_keys clients) \<Longrightarrow> getClients clients u = []"
proof -
  assume "u \<notin> set (registry_keys clients)"
  then have "map_of clients u = None"
    by (simp add: registry_keys_def map_of_eq_None_iff)
  then show "getClients clients u = []" by (simp add: getClients_def)
qed

lemma getClients_empty_iff:
  assumes "registry_inv clients"
  shows "getClients clients u = [] \<longleftrightarrow> u \<notin> set (registry_keys clients)"
proof (cases "map_of clients u")
  case None
  then have "u \<notin> fst ` set clients" by (simp add: map_of_eq_None_iff)
  with None show ?thesis
    by (simp add: getClients_def registry_keys_def)
next
  case (Some s)
  then have "(u, s) \<in> set clients" by (rule map_of_SomeD)
  then have "fst (u, s) \<in> fst ` set clients" by (rule imageI)
  then have "u \<in> set (registry_keys clients)" by (simp add: registry_keys_def)
  moreover have "s \<noteq> []" using registry_inv_lookup [OF assms Some] by simp
  ultimately show ?thesis using Some by (simp add: getClients_def)
qed

lemma subscribeClient_first:
  "u \<notin> set (registry_keys clients) \<Longrightarrow>
     getClients (subscribeClient u c clients) u = [c]"
proof -
  assume "u \<notin> set (registry_keys clients)"
  then have "map_of clients u = None"
    by (simp add: registry_keys_def map_of_eq_None_iff)
  then show ?thesis
    by (simp add: getClients_def subscribeClient_def set_add_def AList.update_conv')
qed

lemma unsubscribeClient_last:
  assumes "map_of clients u = Some s" and "set_delete c s = []"
  shows "u \<notin> set (registry_keys (unsubscribeClient u c clients))"
  using assms
  by (simp add: unsubscribeClient_def registry_keys_def AList.delete_keys)

text \<open>
  Claim C9. The registry keeps the invariant that every user id present in the map holds
  a non-empty set of connections. The empty registry has it, \<open>subscribeClient\<close> and
  \<open>unsubscribeClient\<close> preserve it, \<open>subscribeClient\<close> creates the set on a user's
  first connection, \<open>unsubscribeClient\<close> deletes the key when the set becomes empty,
  and \<open>getClients\<close> of an absent key is the empty set; under the invariant the empty
  set is returned for absent keys only.
\<close>

theorem registry_invariant:
  "registry_inv [] \<and>
   (registry_inv clients \<longrightarrow>
      registry_inv (subscribeClient u c clients) \<and>
      registry_inv (unsubscribeClient u c clients) \<and>
      (getClients clients u = [] \<longleftrightarrow> u \<notin> set (registry_keys clients))) \<and>
   (u \<notin> set (registry_keys clients) \<longrightarrow>
      getClients clients u = [] \<and>
      getClients (subscribeClient u c clients) u = [c]) \<and>
   (map_of clients u = Some s \<and> set_delete c s = [] \<longrightarrow>
      u \<notin> set (registry_keys (unsubscribeClient u c clients)))"
proof (intro conjI impI)
  show "registry_inv []" by (simp add: registry_inv_def)
next
  assume "registry_inv clients"
  then show "registry_inv (subscribeClient u c clients)" by (rule subscribeClient_inv)
next
  assume "registry_inv clients"
  then show "registry_inv (unsubscribeClient u c clients)" by (rule unsubscribeClient_inv)
next
  assume "registry_inv clients"
  then show "getClients clients u = [] \<longleftrightarrow> u \<notin> set (registry_keys clients)"
    by (rule getClients_empty_iff)
next
  assume "u \<notin> set (registry_keys clients)"
  then show "getClients clients u = []" by (rule getClients_absent)
next
  assume "u \<notin> set (registry_keys clients)"
  then show "getClients (subscribeClient u c clients) u = [c]" by (rule subscribeClient_first)
next
  assume "map_of clients u = Some s \<and> set_delete c s = []"
  then show "u \<notin> set (registry_keys (unsubscribeClient u c clients))"
    by (simp add: unsubscribeClient_last)
qed

theorem registry_invariant_witness:
  "registry_inv [(''alice'', [''s1''])] \<and>
   map_of [(''alice'', [''s1''])] ''alice'' = Some [''s1''] \<and>
   set_delete ''s1'' [''s1''] = [] \<and>
   ''bob'' \<notin> set (registry_keys [(''alice'', [''s1''])]) \<and>
   registry_inv (subscribeClient ''alice'' ''s1'' [(''alice'', [''s1''])]) \<and>
   registry_inv (unsubscribeClient ''alice'' ''s1'' [(''alice'', [''s1''])]) \<and>
   ''alice'' \<notin> set (registry_keys (unsubscribeClient ''alice'' ''s1'' [(''alice'', [''s1''])])) \<and>
   getClients [(''alice'', [''s1''])] ''bob'' = [] \<and>
   getClients (subscribeClient ''bob'' ''s2'' [(''alice'', [''s1''])]) ''bob'' = [''s2'']"
proof -
  have i: "registry_inv [(''alice'', [''s1''])]"
    by (simp add: registry_inv_def)
  have l: "map_of [(''alice'', [''s1''])] ''alice'' = Some [''s1''] \<and>
      set_delete ''s1'' [''s1''] = []"
    by (simp add: set_delete_def)
  have k: "''bob'' \<notin> set (registry_keys [(''alice'', [''s1''])])"
    by (simp add: registry_keys_def)
  show ?thesis
    using i l k
      registry_invariant [of "[(''alice'', [''s1''])]" "''alice''" "''s1''" "[''s1'']"]
      registry_invariant [of "[(''alice'', [''s1''])]" "''bob''" "''s2''" "[]"]
    by blast
qed

section \<open>Conversation rows and their ids\<close>

lemma find_distinct_id:
  "distinct (map c_id cs) \<Longrightarrow> c \<in> set cs \<Longrightarrow> P c \<Longrightarrow>
   \<forall>x. P x \<longrightarrow> c_id x = c_id c \<Longrightarrow> find P cs = Some c"
proof (induction cs)
  case Nil
  then show ?case by simp
next
  case (Cons a cs)
  show ?case
  proof (cases "a = c")
    case True
    with Cons.prems(3) show ?thesis by simp
  next
    case False
    with Cons.prems(2) have in_tl: "c \<in> set cs" by simp
    then have "c_id c \<in> c_id ` set cs" by (rule imageI)
    moreover from Cons.prems(1) have "c_id a \<notin> c_id ` set cs" by simp
    ultimately have "c_id a \<noteq> c_id c" by metis
    with Cons.prems(4) have "\<not> P a" by blast
    moreover from Cons.prems(1) have "distinct (map c_id cs)" by simp
    then have "find P cs = Some c"
      using in_tl Cons.prems(3) Cons.prems(4) by (rule Cons.IH)
    ultimately show ?thesis by simp
  qed
qed

lemma update_status_rows_ids:
  "map c_id (update_status_rows now cid status cs) = map c_id cs"
  by (induction cs) (simp_all add: update_status_rows_def)

lemma update_status_rows_member:
  "c \<in> set cs \<Longrightarrow> c_id c = cid \<Longrightarrow>
   c\<lparr>c_status := status, c_updatedAt := now\<rparr> \<in> set (update_status_rows now cid status cs)"
  by (force simp: update_status_rows_def)

lemma updateConversationStatus_ok:
  assumes "outage st = None" and "distinct (map c_id (conversations st))"
    and "c \<in> set (conversations st)" and "c_id c = cid" and "where_participant u c"
  shows "updateConversationStatus st now u cid status =
           Inr (st\<lparr>conversations := update_status_rows now cid status (conversations st)\<rparr>,
                status_projection u (c\<lparr>c_status := status, c_updatedAt := now\<rparr>))"
proof -
  have f1: "find (\<lambda>x. c_id x = cid \<and> where_participant u x) (conversations st) = Some c"
    using assms(2,3) by (rule find_distinct_id) (simp_all add: assms)
  have f2: "find (\<lambda>x. c_id x = cid) (conversations st) = Some c"
    using assms(2,3) by (rule find_distinct_id) (simp_all add: assms)
  show ?thesis
    using assms(1) f1 f2
    by (simp add: updateConversationStatus_def conversation_findFirst_def
          conversation_update_def)
qed

lemma status_of_updated:
  assumes "distinct (map c_id (conversations st))"
    and "c \<in> set (conversations st)" and "c_id c = cid"
  shows "status_of (st\<lparr>conversations := update_status_rows now cid status (conversations st)\<rparr>) cid
           = Some status"
proof -
  let ?c' = "c\<lparr>c_status := status, c_updatedAt := now\<rparr>"
  have "find (\<lambda>x. c_id x = cid) (update_status_rows now cid status (conversations st)) = Some ?c'"
  proof (rule find_distinct_id)
    show "distinct (map c_id (update_status_rows now cid status (conversations st)))"
      using assms(1) by (simp add: update_status_rows_ids)
    show "?c' \<in> set (update_status_rows now cid status (conversations st))"
      using assms(2,3) by (rule update_status_rows_member)
    show "c_id ?c' = cid" using assms(3) by simp
    show "\<forall>x. c_id x = cid \<longrightarrow> c_id x = c_id ?c'" using assms(3) by simp
  qed
  then show ?thesis by (simp add: status_of_def)
qed

section \<open>The handshake\<close>

text \<open>
  Claim C10. A connection whose bearer token verifies against the secret, but whose decoded
  payload has no subject (\<^verbatim>\<open>sub\<close> missing or empty), is answered with the error
  event carrying \<open>Invalid token\<close> and disconnected. The outcome is the same for every
  store \<open>st\<close>, also one that is down, so the user table is not consulted; the registry
  and the socket's session data are returned unchanged, and the effects hold neither a
  join of a per-user group nor a success event.
\<close>

theorem handleConnection_no_subject:
  assumes "extractToken client = Some token" and "token \<noteq> []"
    and "secret = Inr sec" and "verify token sec = Inr payload"
    and "\<not> truthy (sub payload)"
  shows "handleConnection secret verify st clients client =
           (clients, client,
            [ServerEmitTo (sock_id client) EventsEnum_ERROR
               (Envelope (ErrorResponse ''Invalid token'')),
             ClientDisconnect (sock_id client)])"
  using assms
  by (simp add: handleConnection_def handleConnection_try_def truthy_def
        disconnectWithError_def emitError_def split: option.splits)

theorem handleConnection_no_subject_witness:
  "extractToken (socket_of ''s1'' None) = Some ''token'' \<and>
   \<not> truthy (sub \<lparr>sub = None, jwt_email = ''alice@example.org'', jwt_role = ''USER''\<rparr>) \<and>
   handleConnection (Inr ''secret'')
       (\<lambda>t k. Inr \<lparr>sub = None, jwt_email = ''alice@example.org'', jwt_role = ''USER''\<rparr>)
       (example_store\<lparr>outage := Some (Exn (Some ''down''))\<rparr>) [] (socket_of ''s1'' None) =
     ([], socket_of ''s1'' None,
      [ServerEmitTo ''s1'' EventsEnum_ERROR (Envelope (ErrorResponse ''Invalid token'')),
       ClientDisconnect ''s1''])"
proof -
  have t: "extractToken (socket_of ''s1'' None) = Some ''token''"
    by (simp add: extractToken_def socket_of_def truthy_def)
  have n: "\<not> truthy (sub \<lparr>sub = None, jwt_email = ''alice@example.org'', jwt_role = ''USER''\<rparr>)"
    by (simp add: truthy_def)
  have "handleConnection (Inr ''secret'')
       (\<lambda>t k. Inr \<lparr>sub = None, jwt_email = ''alice@example.org'', jwt_role = ''USER''\<rparr>)
       (example_store\<lparr>outage := Some (Exn (Some ''down''))\<rparr>) [] (socket_of ''s1'' None) =
     ([], socket_of ''s1'' None,
      [ServerEmitTo (sock_id (socket_of ''s1'' None)) EventsEnum_ERROR
         (Envelope (ErrorResponse ''Invalid token'')),
       ClientDisconnect (sock_id (socket_of ''s1'' None))])"
    by (rule handleConnection_no_subject [OF t _ refl _ n]) simp_all
  then show ?thesis using t n by (simp add: socket_of_def)
qed

section \<open>Notifications\<close>

lemma notification_create_ok:
  "outage st = None \<Longrightarrow>
   notification_create st nid d rs =
     Inr (st\<lparr>notifications := notifications st @
            [\<lparr>n_id = nid, n_type = np_type d, n_title = np_title d,
              n_message = np_message d,
              n_meta = (case np_meta d of None \<Rightarrow> ''{}'' | Some m \<Rightarrow> m),
              n_users = rs\<rparr>]\<rparr>,
          \<lparr>n_id = nid, n_type = np_type d, n_title = np_title d,
              n_message = np_message d,
              n_meta = (case np_meta d of None \<Rightarrow> ''{}'' | Some m \<Rightarrow> m),
              n_users = rs\<rparr>)"
  by (simp add: notification_create_def Let_def)

lemma notification_create_fail:
  "outage st = Some e \<Longrightarrow> notification_create st nid d rs = Inl e"
  by (simp add: notification_create_def)

text \<open>
  Claim C4. While the store accepts the record, \<open>notifySingleUser\<close> appends exactly one
  notification, with the recipient list \<open>[userId]\<close>, and emits to the user's live
  connections a payload that carries the id of that record; for a user with no live
  connection it still appends the one record and returns with no emission. When the
  store throws, the call is rejected with that error: the result holds neither a store
  change nor an emission.
\<close>

theorem notifySingleUser_persists_then_delivers:
  "(outage st = None \<longrightarrow>
      (\<exists>st' n. notifySingleUser clients st nid userId event d =
          Inr (st', map (\<lambda>c. ClientEmit c event (NotificationBody d nid))
                      (getClients clients userId)) \<and>
        notifications st' = notifications st @ [n] \<and>
        n_id n = nid \<and> n_users n = [userId])) \<and>
   (outage st = None \<and> getClients clients userId = [] \<longrightarrow>
      (\<exists>st'. notifySingleUser clients st nid userId event d = Inr (st', []) \<and>
         length (notifications st') = length (notifications st) + 1)) \<and>
   (outage st = Some e \<longrightarrow> notifySingleUser clients st nid userId event d = Inl e)"
  by (simp add: notifySingleUser_def notification_create_ok notification_create_fail)

theorem notifySingleUser_persists_then_delivers_witness:
  "outage example_store = None \<and>
   getClients [(''bob'', [''s2''])] ''alice'' = [] \<and>
   outage (example_store\<lparr>outage := Some (Exn None)\<rparr>) = Some (Exn None) \<and>
   (\<exists>st'. notifySingleUser [(''bob'', [''s2''])] example_store ''n1'' ''alice''
            ''queue:notification'' example_payload = Inr (st', []) \<and>
          length (notifications st') = length (notifications example_store) + 1) \<and>
   (\<exists>st' n. notifySingleUser [(''bob'', [''s2''])] example_store ''n1'' ''bob''
            ''queue:notification'' example_payload =
            Inr (st', [ClientEmit ''s2'' ''queue:notification''
                         (NotificationBody example_payload ''n1'')]) \<and>
          notifications st' = notifications example_store @ [n] \<and>
          n_id n = ''n1'' \<and> n_users n = [''bob'']) \<and>
   notifySingleUser [(''bob'', [''s2''])] (example_store\<lparr>outage := Some (Exn None)\<rparr>)
      ''n1'' ''bob'' ''queue:notification'' example_payload = Inl (Exn None)"
proof -
  have a: "outage example_store = None" by (simp add: example_store_def)
  have b: "getClients [(''bob'', [''s2''])] ''alice'' = []" by (simp add: getClients_def)
  have b': "getClients [(''bob'', [''s2''])] ''bob'' = [''s2'']" by (simp add: getClients_def)
  have c: "outage (example_store\<lparr>outage := Some (Exn None)\<rparr>) = Some (Exn None)" by simp
  show ?thesis
    using a b c
      notifySingleUser_persists_then_delivers
        [of example_store "[(''bob'', [''s2''])]" "''n1''" "''alice''"
            "''queue:notification''" example_payload "Exn None"]
      notifySingleUser_persists_then_delivers
        [of example_store "[(''bob'', [''s2''])]" "''n1''" "''bob''"
            "''queue:notification''" example_payload "Exn None"]
      notifySingleUser_persists_then_delivers
        [of "example_store\<lparr>outage := Some (Exn None)\<rparr>" "[(''bob'', [''s2''])]" "''n1''"
            "''bob''" "''queue:notification''" example_payload "Exn None"]
    unfolding b'
    by (intro conjI) (simp_all only: simp_thms list.map)
qed

text \<open>
  Claim C3. With no user id in the registry, \<open>notifyAllUsers\<close> returns without touching
  the store and without an emission, whatever the state of the store. Otherwise, while the
  store accepts the record, it appends exactly one notification whose recipients are the
  registry's keys (under the registry invariant: the users with a live connection) and
  emits to every connection of every entry a payload carrying the id of that record; when
  the store throws, the call is rejected and nothing is emitted.
\<close>

theorem notifyAllUsers_connected_only:
  "(registry_keys clients = [] \<longrightarrow> notifyAllUsers clients st nid event d = Inr (st, [])) \<and>
   (registry_keys clients \<noteq> [] \<and> outage st = None \<longrightarrow>
      (\<exists>st' n. notifyAllUsers clients st nid event d =
          Inr (st', concat (map (\<lambda>(u, cs).
                 map (\<lambda>c. ClientEmit c event (NotificationBody d nid)) cs) clients)) \<and>
        notifications st' = notifications st @ [n] \<and>
        n_id n = nid \<and> n_users n = registry_keys clients \<and>
        (registry_inv clients \<longrightarrow> set (n_users n) = {u. getClients clients u \<noteq> []}))) \<and>
   (registry_keys clients \<noteq> [] \<and> outage st = Some e \<longrightarrow>
      notifyAllUsers clients st nid event d = Inl e)"
  by (auto simp add: notifyAllUsers_def notification_create_ok notification_create_fail
        getClients_empty_iff)

theorem notifyAllUsers_connected_only_witness:
  "registry_keys [] = [] \<and>
   registry_keys [(''bob'', [''s2'', ''s3''])] \<noteq> [] \<and>
   registry_inv [(''bob'', [''s2'', ''s3''])] \<and>
   notifyAllUsers [] (example_store\<lparr>outage := Some (Exn None)\<rparr>) ''n1''
      ''queue:notification'' example_payload =
     Inr (example_store\<lparr>outage := Some (Exn None)\<rparr>, []) \<and>
   (\<exists>st' n. notifyAllUsers [(''bob'', [''s2'', ''s3''])] example_store ''n1''
        ''queue:notification'' example_payload =
        Inr (st', [ClientEmit ''s2'' ''queue:notification''
                     (NotificationBody example_payload ''n1''),
                   ClientEmit ''s3'' ''queue:notification''
                     (NotificationBody example_payload ''n1'')]) \<and>
      notifications st' = notifications example_store @ [n] \<and>
      n_id n = ''n1'' \<and> n_users n = [''bob''] \<and>
      set (n_users n) = {u. getClients [(''bob'', [''s2'', ''s3''])] u \<noteq> []}) \<and>
   notifyAllUsers [(''bob'', [''s2'', ''s3''])] (example_store\<lparr>outage := Some (Exn None)\<rparr>)
      ''n1'' ''queue:notification'' example_payload = Inl (Exn None)"
proof -
  have k0: "registry_keys [] = []" by (simp add: registry_keys_def)
  have k1: "registry_keys [(''bob'', [''s2'', ''s3''])] = [''bob'']"
    by (simp add: registry_keys_def)
  have i: "registry_inv [(''bob'', [''s2'', ''s3''])]" by (simp add: registry_inv_def)
  have a: "outage example_store = None" by (simp add: example_store_def)
  have c: "outage (example_store\<lparr>outage := Some (Exn None)\<rparr>) = Some (Exn None)" by simp
  show ?thesis
    using k0 i a c
      notifyAllUsers_connected_only
        [of "[]" "example_store\<lparr>outage := Some (Exn None)\<rparr>" "''n1''"
            "''queue:notification''" example_payload "Exn None"]
      notifyAllUsers_connected_only
        [of "[(''bob'', [''s2'', ''s3''])]" example_store "''n1''"
            "''queue:notification''" example_payload "Exn None"]
      notifyAllUsers_connected_only
        [of "[(''bob'', [''s2'', ''s3''])]" "example_store\<lparr>outage := Some (Exn None)\<rparr>"
            "''n1''" "''queue:notification''" example_payload "Exn None"]
    unfolding k1
    by (intro conjI) (simp_all del: set_simps)
qed

section \<open>Status changes and their notifications\<close>

lemma archiveConversation_ok:
  assumes "data_userId client = Some userId" and "userId \<noteq> []"
    and "outage st = None" and "distinct (map c_id (conversations st))"
    and "c \<in> set (conversations st)" and "c_id c = cid" and "where_participant userId c"
  shows "archiveConversation st now client cid =
     (st\<lparr>conversations := update_status_rows now cid ARCHIVED (conversations st)\<rparr>,
      [ClientEmit (sock_id client) EventsEnum_CONVERSATION_UPDATE
         (Envelope (SuccessResponse (StatusData
            (status_projection userId (c\<lparr>c_status := ARCHIVED, c_updatedAt := now\<rparr>)))))],
      SuccessResponse (StatusData
        (status_projection userId (c\<lparr>c_status := ARCHIVED, c_updatedAt := now\<rparr>))))"
  using assms(1,2) updateConversationStatus_ok [OF assms(3-7), of now ARCHIVED]
  by (simp add: archiveConversation_def)

lemma participant_projection:
  "p_id (s_participant (status_projection userId (c\<lparr>c_status := s, c_updatedAt := t\<rparr>))) =
     p_id (otherParticipant userId c)"
  by (simp add: status_projection_def otherParticipant_def c_initiatorId_def)

lemma blockConversation_ok:
  assumes "data_userId client = Some userId" and "userId \<noteq> []"
    and "outage st = None" and "distinct (map c_id (conversations st))"
    and "c \<in> set (conversations st)" and "c_id c = cid" and "where_participant userId c"
  shows "blockConversation st now client cid =
     (st\<lparr>conversations := update_status_rows now cid BLOCKED (conversations st)\<rparr>,
      [ClientEmit (sock_id client) EventsEnum_CONVERSATION_UPDATE
         (Envelope (SuccessResponse (StatusData
            (status_projection userId (c\<lparr>c_status := BLOCKED, c_updatedAt := now\<rparr>))))),
       EmitToUserFirstSocket (p_id (otherParticipant userId c)) EventsEnum_CONVERSATION_UPDATE
         (Envelope (SuccessResponse (ActionData cid ''blocked'')))],
      SuccessResponse (StatusData
        (status_projection userId (c\<lparr>c_status := BLOCKED, c_updatedAt := now\<rparr>))))"
  using assms(1,2) updateConversationStatus_ok [OF assms(3-7), of now BLOCKED]
  by (simp add: blockConversation_def participant_projection)

lemma unblockConversation_ok:
  assumes "data_userId client = Some userId" and "userId \<noteq> []"
    and "outage st = None" and "distinct (map c_id (conversations st))"
    and "c \<in> set (conversations st)" and "c_id c = cid" and "where_participant userId c"
  shows "unblockConversation st now client cid =
     (st\<lparr>conversations := update_status_rows now cid ACTIVE (conversations st)\<rparr>,
      [ClientEmit (sock_id client) EventsEnum_CONVERSATION_UPDATE
         (Envelope (SuccessResponse (StatusData
            (status_projection userId (c\<lparr>c_status := ACTIVE, c_updatedAt := now\<rparr>))))),
       EmitToUserFirstSocket (p_id (otherParticipant userId c)) EventsEnum_CONVERSATION_UPDATE
         (Envelope (SuccessResponse (ActionData cid ''unblocked'')))],
      SuccessResponse (StatusData
        (status_projection userId (c\<lparr>c_status := ACTIVE, c_updatedAt := now\<rparr>))))"
  using assms(1,2) updateConversationStatus_ok [OF assms(3-7), of now ACTIVE]
  by (simp add: unblockConversation_def participant_projection)

lemma deleteConversation_ok:
  assumes "data_userId client = Some userId" and "userId \<noteq> []"
    and "outage st = None" and "distinct (map c_id (conversations st))"
    and "c \<in> set (conversations st)" and "c_id c = cid" and "where_participant userId c"
  shows "deleteConversation st client cid =
     (st\<lparr>conversations := filter (\<lambda>x. c_id x \<noteq> cid) (conversations st)\<rparr>,
      [ClientEmit (sock_id client) EventsEnum_SUCCESS (Envelope (SuccessResponse SuccessTrue)),
       EmitToUserFirstSocket (p_id (otherParticipant userId c)) EventsEnum_CONVERSATION_UPDATE
         (Envelope (SuccessResponse (ActionData cid ''deleted'')))],
      SuccessResponse SuccessTrue)"
proof -
  have f1: "find (\<lambda>x. c_id x = cid \<and> where_participant userId x) (conversations st) = Some c"
    using assms(4,5) by (rule find_distinct_id) (simp_all add: assms)
  have f2: "find (\<lambda>x. c_id x = cid) (conversations st) = Some c"
    using assms(4,5) by (rule find_distinct_id) (simp_all add: assms)
  have o: "(if c_initiatorId c = userId then c_receiverId c else c_initiatorId c) =
      p_id (otherParticipant userId c)"
    by (simp add: otherParticipant_def c_initiatorId_def c_receiverId_def)
  show ?thesis
    using assms(1,2,3) f1 f2 o
    by (simp add: deleteConversation_def deleteConversation_try_def
          conversation_findFirst_def conversation_delete_def)
qed

lemma updated_store_ready:
  assumes "outage st = None" and "distinct (map c_id (conversations st))"
    and "c \<in> set (conversations st)" and "c_id c = cid" and "where_participant userId c"
  shows "outage (st\<lparr>conversations := update_status_rows now cid s (conversations st)\<rparr>) = None"
    and "distinct (map c_id (conversations
           (st\<lparr>conversations := update_status_rows now cid s (conversations st)\<rparr>)))"
    and "c\<lparr>c_status := s, c_updatedAt := now\<rparr> \<in> set (conversations
           (st\<lparr>conversations := update_status_rows now cid s (conversations st)\<rparr>))"
    and "c_id (c\<lparr>c_status := s, c_updatedAt := now\<rparr>) = cid"
    and "where_participant userId (c\<lparr>c_status := s, c_updatedAt := now\<rparr>)"
  using assms
  by (simp_all add: update_status_rows_ids update_status_rows_member
        where_participant_def c_initiatorId_def c_receiverId_def)

lemma example_facts:
  "data_userId (socket_of sid (Some ''alice'')) = Some ''alice''"
  "outage example_store = None"
  "distinct (map c_id (conversations example_store))"
  "conv_ab \<in> set (conversations example_store)"
  "c_id conv_ab = ''c1''"
  "where_participant ''alice'' conv_ab"
  by (simp_all add: socket_of_def example_store_def conv_ab_def conv_bc_def
        where_participant_def c_initiatorId_def select_participant_def alice_def)

text \<open>
  Claim C8. For a caller who is a participant of the conversation, \<open>archiveConversation\<close>,
  \<open>blockConversation\<close> and \<open>unblockConversation\<close> succeed whatever the status of the
  conversation was (no hypothesis restricts \<open>c_status c\<close>) and leave the stored status
  \<open>ARCHIVED\<close>, \<open>BLOCKED\<close> and \<open>ACTIVE\<close>; blocking twice in succession succeeds both
  times and leaves \<open>BLOCKED\<close>. The store is taken to answer and conversation ids to be
  unique.
\<close>

theorem status_setting_unrestricted:
  assumes "data_userId client = Some userId" and "userId \<noteq> []"
    and "outage st = None" and "distinct (map c_id (conversations st))"
    and "c \<in> set (conversations st)" and "c_id c = cid" and "where_participant userId c"
  shows "(case archiveConversation st now client cid of (st', effs, r) \<Rightarrow>
            status_of st' cid = Some ARCHIVED \<and>
            r = SuccessResponse (StatusData
                  (status_projection userId (c\<lparr>c_status := ARCHIVED, c_updatedAt := now\<rparr>)))) \<and>
         (case blockConversation st now client cid of (st', effs, r) \<Rightarrow>
            status_of st' cid = Some BLOCKED \<and>
            r = SuccessResponse (StatusData
                  (status_projection userId (c\<lparr>c_status := BLOCKED, c_updatedAt := now\<rparr>)))) \<and>
         (case unblockConversation st now client cid of (st', effs, r) \<Rightarrow>
            status_of st' cid = Some ACTIVE \<and>
            r = SuccessResponse (StatusData
                  (status_projection userId (c\<lparr>c_status := ACTIVE, c_updatedAt := now\<rparr>)))) \<and>
         (case blockConversation st now client cid of (st1, effs1, r1) \<Rightarrow>
            (case blockConversation st1 now' client cid of (st2, effs2, r2) \<Rightarrow>
               status_of st2 cid = Some BLOCKED \<and>
               r2 = SuccessResponse (StatusData
                  (status_projection userId (c\<lparr>c_status := BLOCKED, c_updatedAt := now'\<rparr>)))))"
proof (intro conjI)
  show "case archiveConversation st now client cid of (st', effs, r) \<Rightarrow>
            status_of st' cid = Some ARCHIVED \<and>
            r = SuccessResponse (StatusData
                  (status_projection userId (c\<lparr>c_status := ARCHIVED, c_updatedAt := now\<rparr>)))"
    using archiveConversation_ok [OF assms, of now] status_of_updated [OF assms(4-6)]
    by simp
  show "case unblockConversation st now client cid of (st', effs, r) \<Rightarrow>
            status_of st' cid = Some ACTIVE \<and>
            r = SuccessResponse (StatusData
                  (status_projection userId (c\<lparr>c_status := ACTIVE, c_updatedAt := now\<rparr>)))"
    using unblockConversation_ok [OF assms, of now] status_of_updated [OF assms(4-6)]
    by simp
  have b1: "blockConversation st now client cid =
     (st\<lparr>conversations := update_status_rows now cid BLOCKED (conversations st)\<rparr>,
      [ClientEmit (sock_id client) EventsEnum_CONVERSATION_UPDATE
         (Envelope (SuccessResponse (StatusData
            (status_projection userId (c\<lparr>c_status := BLOCKED, c_updatedAt := now\<rparr>))))),
       EmitToUserFirstSocket (p_id (otherParticipant userId c)) EventsEnum_CONVERSATION_UPDATE
         (Envelope (SuccessResponse (ActionData cid ''blocked'')))],
      SuccessResponse (StatusData
        (status_projection userId (c\<lparr>c_status := BLOCKED, c_updatedAt := now\<rparr>))))"
    by (rule blockConversation_ok [OF assms])
  show "case blockConversation st now client cid of (st', effs, r) \<Rightarrow>
            status_of st' cid = Some BLOCKED \<and>
            r = SuccessResponse (StatusData
                  (status_projection userId (c\<lparr>c_status := BLOCKED, c_updatedAt := now\<rparr>)))"
    using b1 status_of_updated [OF assms(4-6)] by simp
  let ?st1 = "st\<lparr>conversations := update_status_rows now cid BLOCKED (conversations st)\<rparr>"
  let ?c1 = "c\<lparr>c_status := BLOCKED, c_updatedAt := now\<rparr>"
  note r = updated_store_ready [OF assms(3-7), where now = now and s = BLOCKED]
  have b2: "blockConversation ?st1 now' client cid =
     (?st1\<lparr>conversations := update_status_rows now' cid BLOCKED (conversations ?st1)\<rparr>,
      [ClientEmit (sock_id client) EventsEnum_CONVERSATION_UPDATE
         (Envelope (SuccessResponse (StatusData
            (status_projection userId (?c1\<lparr>c_status := BLOCKED, c_updatedAt := now'\<rparr>))))),
       EmitToUserFirstSocket (p_id (otherParticipant userId ?c1)) EventsEnum_CONVERSATION_UPDATE
         (Envelope (SuccessResponse (ActionData cid ''blocked'')))],
      SuccessResponse (StatusData
        (status_projection userId (?c1\<lparr>c_status := BLOCKED, c_updatedAt := now'\<rparr>))))"
    by (rule blockConversation_ok [OF assms(1,2) r])
  have s2: "status_of (?st1\<lparr>conversations :=
        update_status_rows now' cid BLOCKED (conversations ?st1)\<rparr>) cid = Some BLOCKED"
    by (rule status_of_updated [OF r(2,3,4)])
  show "case blockConversation st now client cid of (st1, effs1, r1) \<Rightarrow>
            (case blockConversation st1 now' client cid of (st2, effs2, r2) \<Rightarrow>
               status_of st2 cid = Some BLOCKED \<and>
               r2 = SuccessResponse (StatusData
                  (status_projection userId (c\<lparr>c_status := BLOCKED, c_updatedAt := now'\<rparr>))))"
    unfolding b1 prod.case b2 using s2 by simp
qed

theorem status_setting_unrestricted_witness:
  "data_userId (socket_of ''s1'' (Some ''alice'')) = Some ''alice'' \<and>
   outage example_store = None \<and>
   distinct (map c_id (conversations example_store)) \<and>
   conv_ab \<in> set (conversations example_store) \<and>
   c_id conv_ab = ''c1'' \<and> where_participant ''alice'' conv_ab \<and>
   status_of example_store ''c1'' = Some ARCHIVED \<and>
   status_of (fst (archiveConversation example_store 50 (socket_of ''s1'' (Some ''alice'')) ''c1''))
     ''c1'' = Some ARCHIVED \<and>
   status_of (fst (unblockConversation example_store 50 (socket_of ''s1'' (Some ''alice'')) ''c1''))
     ''c1'' = Some ACTIVE \<and>
   status_of (fst (blockConversation
       (fst (blockConversation example_store 50 (socket_of ''s1'' (Some ''alice'')) ''c1''))
       51 (socket_of ''s1'' (Some ''alice'')) ''c1'')) ''c1'' = Some BLOCKED \<and>
   snd (snd (blockConversation
       (fst (blockConversation example_store 50 (socket_of ''s1'' (Some ''alice'')) ''c1''))
       51 (socket_of ''s1'' (Some ''alice'')) ''c1'')) =
     SuccessResponse (StatusData
       (status_projection ''alice'' (conv_ab\<lparr>c_status := BLOCKED, c_updatedAt := 51\<rparr>)))"
proof -
  have s0: "status_of example_store ''c1'' = Some ARCHIVED"
    by (simp add: status_of_def example_store_def conv_ab_def)
  have ne: "''alice'' \<noteq> []" by simp
  show ?thesis
    using s0 example_facts(1) [of "''s1''"] example_facts(2-6)
      status_setting_unrestricted
        [OF example_facts(1) [of "''s1''"] ne example_facts(2-6), where now = 50 and now' = 51]
    by (simp add: split_beta)
qed

text \<open>
  What the four mutations emit. For a caller who is a participant of the conversation,
  \<open>deleteConversation\<close>, \<open>blockConversation\<close> and \<open>unblockConversation\<close> succeed,
  emit their result to the caller's own connection, and call the gateway's
  \<open>emitToUserFirstSocket\<close> for the counterpart with a notification that names the
  conversation and the action (\<open>deleted\<close>, \<open>blocked\<close>, \<open>unblocked\<close>).
  \<open>archiveConversation\<close> succeeds and emits the updated summary to the caller's own
  connection.
\<close>

theorem mutation_emits:
  assumes "data_userId client = Some userId" and "userId \<noteq> []"
    and "outage st = None" and "distinct (map c_id (conversations st))"
    and "c \<in> set (conversations st)" and "c_id c = cid" and "where_participant userId c"
  shows "(case deleteConversation st client cid of (st', effs, r) \<Rightarrow>
            r = SuccessResponse SuccessTrue \<and>
            effs = [ClientEmit (sock_id client) EventsEnum_SUCCESS
                      (Envelope (SuccessResponse SuccessTrue)),
                    EmitToUserFirstSocket (p_id (otherParticipant userId c))
                      EventsEnum_CONVERSATION_UPDATE
                      (Envelope (SuccessResponse (ActionData cid ''deleted'')))]) \<and>
         (case blockConversation st now client cid of (st', effs, r) \<Rightarrow>
            r = SuccessResponse (StatusData
                  (status_projection userId (c\<lparr>c_status := BLOCKED, c_updatedAt := now\<rparr>))) \<and>
            effs = [ClientEmit (sock_id client) EventsEnum_CONVERSATION_UPDATE (Envelope r),
                    EmitToUserFirstSocket (p_id (otherParticipant userId c))
                      EventsEnum_CONVERSATION_UPDATE
                      (Envelope (SuccessResponse (ActionData cid ''blocked'')))]) \<and>
         (case unblockConversation st now client cid of (st', effs, r) \<Rightarrow>
            r = SuccessResponse (StatusData
                  (status_projection userId (c\<lparr>c_status := ACTIVE, c_updatedAt := now\<rparr>))) \<and>
            effs = [ClientEmit (sock_id client) EventsEnum_CONVERSATION_UPDATE (Envelope r),
                    EmitToUserFirstSocket (p_id (otherParticipant userId c))
                      EventsEnum_CONVERSATION_UPDATE
                      (Envelope (SuccessResponse (ActionData cid ''unblocked'')))]) \<and>
         (case archiveConversation st now client cid of (st', effs, r) \<Rightarrow>
            r = SuccessResponse (StatusData
                  (status_projection userId (c\<lparr>c_status := ARCHIVED, c_updatedAt := now\<rparr>))) \<and>
            ClientEmit (sock_id client) EventsEnum_CONVERSATION_UPDATE (Envelope r) \<in> set effs)"
proof (intro conjI)
  show "case deleteConversation st client cid of (st', effs, r) \<Rightarrow>
            r = SuccessResponse SuccessTrue \<and>
            effs = [ClientEmit (sock_id client) EventsEnum_SUCCESS
                      (Envelope (SuccessResponse SuccessTrue)),
                    EmitToUserFirstSocket (p_id (otherParticipant userId c))
                      EventsEnum_CONVERSATION_UPDATE
                      (Envelope (SuccessResponse (ActionData cid ''deleted'')))]"
    by (simp add: deleteConversation_ok [OF assms])
  show "case blockConversation st now client cid of (st', effs, r) \<Rightarrow>
            r = SuccessResponse (StatusData
                  (status_projection userId (c\<lparr>c_status := BLOCKED, c_updatedAt := now\<rparr>))) \<and>
            effs = [ClientEmit (sock_id client) EventsEnum_CONVERSATION_UPDATE (Envelope r),
                    EmitToUserFirstSocket (p_id (otherParticipant userId c))
                      EventsEnum_CONVERSATION_UPDATE
                      (Envelope (SuccessResponse (ActionData cid ''blocked'')))]"
    by (simp add: blockConversation_ok [OF assms])
  show "case unblockConversation st now client cid of (st', effs, r) \<Rightarrow>
            r = SuccessResponse (StatusData
                  (status_projection userId (c\<lparr>c_status := ACTIVE, c_updatedAt := now\<rparr>))) \<and>
            effs = [ClientEmit (sock_id client) EventsEnum_CONVERSATION_UPDATE (Envelope r),
                    EmitToUserFirstSocket (p_id (otherParticipant userId c))
                      EventsEnum_CONVERSATION_UPDATE
                      (Envelope (SuccessResponse (ActionData cid ''unblocked'')))]"
    by (simp add: unblockConversation_ok [OF assms])
  show "case archiveConversation st now client cid of (st', effs, r) \<Rightarrow>
            r = SuccessResponse (StatusData
                  (status_projection userId (c\<lparr>c_status := ARCHIVED, c_updatedAt := now\<rparr>))) \<and>
            ClientEmit (sock_id client) EventsEnum_CONVERSATION_UPDATE (Envelope r) \<in> set effs"
    by (simp add: archiveConversation_ok [OF assms])
qed

theorem mutation_emits_witness:
  "data_userId (socket_of ''s1'' (Some ''alice'')) = Some ''alice'' \<and>
   outage example_store = None \<and>
   distinct (map c_id (conversations example_store)) \<and>
   conv_ab \<in> set (conversations example_store) \<and>
   c_id conv_ab = ''c1'' \<and> where_participant ''alice'' conv_ab \<and>
   fst (snd (deleteConversation example_store (socket_of ''s1'' (Some ''alice'')) ''c1'')) =
     [ClientEmit ''s1'' EventsEnum_SUCCESS (Envelope (SuccessResponse SuccessTrue)),
      EmitToUserFirstSocket ''bob'' EventsEnum_CONVERSATION_UPDATE
        (Envelope (SuccessResponse (ActionData ''c1'' ''deleted'')))] \<and>
   fst (snd (blockConversation example_store 50 (socket_of ''s1'' (Some ''alice'')) ''c1'')) =
     [ClientEmit ''s1'' EventsEnum_CONVERSATION_UPDATE
        (Envelope (SuccessResponse (StatusData
           (status_projection ''alice'' (conv_ab\<lparr>c_status := BLOCKED, c_updatedAt := 50\<rparr>))))),
      EmitToUserFirstSocket ''bob'' EventsEnum_CONVERSATION_UPDATE
        (Envelope (SuccessResponse (ActionData ''c1'' ''blocked'')))] \<and>
   fst (snd (unblockConversation example_store 50 (socket_of ''s1'' (Some ''alice'')) ''c1'')) =
     [ClientEmit ''s1'' EventsEnum_CONVERSATION_UPDATE
        (Envelope (SuccessResponse (StatusData
           (status_projection ''alice'' (conv_ab\<lparr>c_status := ACTIVE, c_updatedAt := 50\<rparr>))))),
      EmitToUserFirstSocket ''bob'' EventsEnum_CONVERSATION_UPDATE
        (Envelope (SuccessResponse (ActionData ''c1'' ''unblocked'')))] \<and>
   ClientEmit ''s1'' EventsEnum_CONVERSATION_UPDATE
        (Envelope (SuccessResponse (StatusData
           (status_projection ''alice'' (conv_ab\<lparr>c_status := ARCHIVED, c_updatedAt := 50\<rparr>)))))
     \<in> set (fst (snd (archiveConversation example_store 50
                (socket_of ''s1'' (Some ''alice'')) ''c1'')))"
proof -
  have ne: "''alice'' \<noteq> []" by simp
  have o: "p_id (otherParticipant ''alice'' conv_ab) = ''bob''"
    by (simp add: otherParticipant_def conv_ab_def c_initiatorId_def select_participant_def
          alice_def bob_def)
  have s: "sock_id (socket_of ''s1'' (Some ''alice'')) = ''s1''"
    by (simp add: socket_of_def)
  show ?thesis
    using example_facts(1) [of "''s1''"] example_facts(2-6)
      mutation_emits [OF example_facts(1) [of "''s1''"] ne example_facts(2-6), where now = 50]
    unfolding o s
    by (auto simp add: split_beta)
qed

text \<open>
  Claim C1. A successful mutation is to emit its result to the caller's own connection
  and to send the counterpart a notification. The three sibling handlers do both, each
  under the comment \<^verbatim>\<open>// Notify the other participant if online\<close>;
  \<open>archiveConversation\<close> has no such call. Here Alice archives her conversation with
  Bob: the call succeeds and returns the updated summary, and no effect of it reaches
  anyone but Alice's own connection.
\<close>

theorem archive_reaches_caller_only:
  "snd (snd (archiveConversation example_store 50 (socket_of ''s1'' (Some ''alice'')) ''c1'')) =
     SuccessResponse (StatusData
       \<lparr>s_id = ''c1'', s_participant = select_participant bob, s_status = ARCHIVED,
        s_createdAt = 10, s_updatedAt = 50\<rparr>) \<and>
   filter (reaches_other ''s1'')
     (fst (snd (archiveConversation example_store 50 (socket_of ''s1'' (Some ''alice'')) ''c1'')))
     = []"
proof -
  have ne: "''alice'' \<noteq> []" by simp
  have p: "status_projection ''alice'' (conv_ab\<lparr>c_status := ARCHIVED, c_updatedAt := 50\<rparr>) =
      \<lparr>s_id = ''c1'', s_participant = select_participant bob, s_status = ARCHIVED,
        s_createdAt = 10, s_updatedAt = 50\<rparr>"
    by (simp add: status_projection_def otherParticipant_def conv_ab_def c_initiatorId_def
          select_participant_def alice_def bob_def)
  show ?thesis
    unfolding archiveConversation_ok
        [OF example_facts(1) [of "''s1''"] ne example_facts(2-6), of 50] p
    by (simp add: reaches_other_def socket_of_def)
qed

section \<open>Loading one conversation\<close>

lemma loadSingleConversation_miss:
  assumes "data_userId client = Some userId" and "userId \<noteq> []"
    and "find (\<lambda>c. c_id c = ls_conversationId dto \<and> where_participant userId c)
           (conversations st) = None"
  shows "loadSingleConversation st client dto =
     (case outage st of
        None \<Rightarrow> chatGateway_emitError client ''Conversation not found or unauthorized''
      | Some e \<Rightarrow> chatGateway_emitError client (message_or e ''Failed to load conversation''))"
  using assms
  by (simp add: loadSingleConversation_def loadSingleConversation_try_def Let_def
        conversation_findFirst_def split: option.splits)

text \<open>
  Claim C5. For an authenticated caller, \<open>loadSingleConversation\<close> gives the very same
  outcome (return value and emitted events) for a conversation id that no row has and for
  the id of a conversation the caller takes no part in; while the store answers, that
  outcome is the error \<open>Conversation not found or unauthorized\<close>.
\<close>

theorem loadSingleConversation_opaque:
  assumes "data_userId client = Some userId" and "userId \<noteq> []"
    and "\<forall>c \<in> set (conversations st). c_id c \<noteq> ls_conversationId dto_absent"
    and "foreign \<in> set (conversations st)"
    and "c_id foreign = ls_conversationId dto_foreign"
    and "\<forall>c \<in> set (conversations st).
           c_id c = ls_conversationId dto_foreign \<longrightarrow> \<not> where_participant userId c"
  shows "loadSingleConversation st client dto_absent =
           loadSingleConversation st client dto_foreign \<and>
         (outage st = None \<longrightarrow>
            loadSingleConversation st client dto_foreign =
              ([ServerEmitTo (sock_id client) EventsEnum_ERROR
                  (Envelope (ErrorResponse ''Conversation not found or unauthorized''))],
               ErrorResponse ''Conversation not found or unauthorized''))"
proof -
  have a: "find (\<lambda>c. c_id c = ls_conversationId dto_absent \<and> where_participant userId c)
           (conversations st) = None"
    using assms(3) by (auto simp add: find_None_iff)
  have f: "find (\<lambda>c. c_id c = ls_conversationId dto_foreign \<and> where_participant userId c)
           (conversations st) = None"
    using assms(6) by (auto simp add: find_None_iff)
  show ?thesis
    unfolding loadSingleConversation_miss [OF assms(1,2) a]
      loadSingleConversation_miss [OF assms(1,2) f]
    by (simp add: chatGateway_emitError_def emitError_def)
qed

theorem loadSingleConversation_opaque_witness:
  "data_userId (socket_of ''s1'' (Some ''alice'')) = Some ''alice'' \<and>
   conv_bc \<in> set (conversations example_store) \<and>
   \<not> where_participant ''alice'' conv_bc \<and>
   loadSingleConversation example_store (socket_of ''s1'' (Some ''alice''))
       \<lparr>ls_conversationId = ''nope'', ls_page = None, ls_limit = None\<rparr> =
     loadSingleConversation example_store (socket_of ''s1'' (Some ''alice''))
       \<lparr>ls_conversationId = ''c2'', ls_page = Some 2, ls_limit = Some 10\<rparr> \<and>
   loadSingleConversation example_store (socket_of ''s1'' (Some ''alice''))
       \<lparr>ls_conversationId = ''c2'', ls_page = Some 2, ls_limit = Some 10\<rparr> =
     ([ServerEmitTo ''s1'' EventsEnum_ERROR
         (Envelope (ErrorResponse ''Conversation not found or unauthorized''))],
      ErrorResponse ''Conversation not found or unauthorized'')"
proof -
  have ne: "''alice'' \<noteq> []" by simp
  have m: "conv_bc \<in> set (conversations example_store)"
    by (simp add: example_store_def)
  have np: "\<not> where_participant ''alice'' conv_bc"
    by (simp add: where_participant_def conv_bc_def c_initiatorId_def c_receiverId_def
          select_participant_def bob_def carol_def)
  have h3: "\<forall>c \<in> set (conversations example_store).
      c_id c \<noteq> ls_conversationId \<lparr>ls_conversationId = ''nope'', ls_page = None, ls_limit = None\<rparr>"
    by (simp add: example_store_def conv_ab_def conv_bc_def)
  have h5: "c_id conv_bc =
      ls_conversationId \<lparr>ls_conversationId = ''c2'', ls_page = Some 2, ls_limit = Some 10\<rparr>"
    by (simp add: conv_bc_def)
  have h6: "\<forall>c \<in> set (conversations example_store).
      c_id c = ls_conversationId \<lparr>ls_conversationId = ''c2'', ls_page = Some 2, ls_limit = Some 10\<rparr>
        \<longrightarrow> \<not> where_participant ''alice'' c"
    using np by (simp add: example_store_def conv_ab_def)
  have s: "sock_id (socket_of ''s1'' (Some ''alice'')) = ''s1''"
    by (simp add: socket_of_def)
  show ?thesis
    using example_facts(1) [of "''s1''"] example_facts(2) m np
      loadSingleConversation_opaque [OF example_facts(1) [of "''s1''"] ne h3 m h5 h6]
    unfolding s by simp
qed

section \<open>Initiating a conversation\<close>

lemma initiate_where_sym: "initiate_where a b = initiate_where b a"
  by (rule ext) (auto simp: initiate_where_def)

lemma find_user_id: "find (\<lambda>u. u_id u = uid) us = Some u \<Longrightarrow> u_id u = uid"
  by (induction us) (auto split: if_splits)

lemma initiated_id_finish:
  "initiate_finish st client a c = (st', effs, r) \<Longrightarrow> st' = st \<and> initiated_id r = Some (c_id c)"
  by (auto simp: initiate_finish_def Let_def initiated_id_def initiate_result_def)

lemma initiate_outcome:
  assumes "data_userId client = Some a" and "a \<noteq> []" and "a \<noteq> t" and "outage st = None"
  shows "initiateConversationWithUser st cid now client t =
     (case find (initiate_where a t) (conversations st) of
        Some c \<Rightarrow> initiate_finish st client a c
      | None \<Rightarrow>
          (case find (\<lambda>u. u_id u = t) (users st) of
             None \<Rightarrow> (st, fst (chatGateway_emitError client ''Target user not found''),
                        ErrorResponse ''Target user not found'')
           | Some tu \<Rightarrow>
               (case find (\<lambda>u. u_id u = a) (users st) of
                  None \<Rightarrow> (st, fst (chatGateway_emitError client ''Invalid store request''),
                             ErrorResponse ''Invalid store request'')
                | Some au \<Rightarrow>
                    initiate_finish
                      (st\<lparr>conversations := conversations st @ [new_conversation cid now au tu]\<rparr>)
                      client a (new_conversation cid now au tu))))"
  using assms
  by (simp add: initiateConversationWithUser_def initiateConversationWithUser_try_def
        conversation_findFirst_def user_findUnique_def conversation_create_def
        chatGateway_emitError_def emitError_def request_rejected_def message_or_def Let_def
        split: option.splits)

lemma new_conversation_matches:
  assumes "u_id au = a" and "u_id tu = t"
  shows "initiate_where a t (new_conversation cid now au tu)"
    and "c_id (new_conversation cid now au tu) = cid"
  using assms
  by (simp_all add: initiate_where_def new_conversation_def c_initiatorId_def c_receiverId_def
        select_participant_def)

lemma find_append_new:
  "find P xs = None \<Longrightarrow> P y \<Longrightarrow> find P (xs @ [y]) = Some y"
  by (induction xs) (auto split: if_splits)

lemma filter_find_None: "find P xs = None \<Longrightarrow> filter P xs = []"
  by (induction xs) (auto split: if_splits)

lemma initiate_existing_row:
  assumes "data_userId client = Some a" and "a \<noteq> []" and "a \<noteq> t" and "outage st = None"
    and "find (initiate_where a t) (conversations st) = Some c"
  shows "initiateConversationWithUser st cid now client t = initiate_finish st client a c"
  using assms(5) by (simp add: initiate_outcome [OF assms(1-4)])

lemma initiate_first_call:
  assumes "data_userId client = Some a" and "a \<noteq> []" and "a \<noteq> t" and "outage st = None"
    and "initiateConversationWithUser st cid now client t = (st1, effs1, r1)"
  shows "outage st1 = None"
    and "initiated_id r1 = Some i \<Longrightarrow>
          \<exists>c. find (initiate_where a t) (conversations st1) = Some c \<and> c_id c = i"
    and "length (rows_of_pair st a t) \<le> 1 \<Longrightarrow> length (rows_of_pair st1 a t) \<le> 1"
proof -
  note out = assms(5) [unfolded initiate_outcome [OF assms(1-4)]]
  consider (found) c where "find (initiate_where a t) (conversations st) = Some c"
    | (no_target) "find (initiate_where a t) (conversations st) = None"
        "find (\<lambda>u. u_id u = t) (users st) = None"
    | (no_initiator) tu where "find (initiate_where a t) (conversations st) = None"
        "find (\<lambda>u. u_id u = t) (users st) = Some tu"
        "find (\<lambda>u. u_id u = a) (users st) = None"
    | (created) tu au where "find (initiate_where a t) (conversations st) = None"
        "find (\<lambda>u. u_id u = t) (users st) = Some tu"
        "find (\<lambda>u. u_id u = a) (users st) = Some au"
    by (cases "find (initiate_where a t) (conversations st)";
        cases "find (\<lambda>u. u_id u = t) (users st)";
        cases "find (\<lambda>u. u_id u = a) (users st)") auto
  then have "outage st1 = None \<and>
      (initiated_id r1 = Some i \<longrightarrow>
          (\<exists>c. find (initiate_where a t) (conversations st1) = Some c \<and> c_id c = i)) \<and>
      (length (rows_of_pair st a t) \<le> 1 \<longrightarrow> length (rows_of_pair st1 a t) \<le> 1)"
  proof cases
    case found
    with out have "initiate_finish st client a c = (st1, effs1, r1)" by simp
    then have "st1 = st \<and> initiated_id r1 = Some (c_id c)" by (rule initiated_id_finish)
    with found assms(4) show ?thesis by auto
  next
    case no_target
    with out have "st1 = st" and "r1 = ErrorResponse ''Target user not found''" by simp_all
    with assms(4) show ?thesis by (simp add: initiated_id_def)
  next
    case no_initiator
    with out have "st1 = st" and "r1 = ErrorResponse ''Invalid store request''" by simp_all
    with assms(4) show ?thesis by (simp add: initiated_id_def)
  next
    case created
    let ?nc = "new_conversation cid now au tu"
    let ?st' = "st\<lparr>conversations := conversations st @ [?nc]\<rparr>"
    from created out have "initiate_finish ?st' client a ?nc = (st1, effs1, r1)" by simp
    then have fin: "st1 = ?st' \<and> initiated_id r1 = Some (c_id ?nc)"
      by (rule initiated_id_finish)
    have ids: "u_id au = a" "u_id tu = t"
      using created(2,3) by (auto dest: find_user_id)
    note m = new_conversation_matches [OF ids, of cid now]
    have f: "find (initiate_where a t) (conversations ?st') = Some ?nc"
      using created(1) m(1) by (simp add: find_append_new)
    have r: "rows_of_pair ?st' a t = [?nc]"
      using created(1) m(1) by (simp add: rows_of_pair_def filter_find_None)
    show ?thesis
      using fin f r m(2) assms(4) by auto
  qed
  then show "outage st1 = None"
    and "initiated_id r1 = Some i \<Longrightarrow>
          \<exists>c. find (initiate_where a t) (conversations st1) = Some c \<and> c_id c = i"
    and "length (rows_of_pair st a t) \<le> 1 \<Longrightarrow> length (rows_of_pair st1 a t) \<le> 1"
    by blast+
qed

lemma initiate_again:
  assumes "data_userId client = Some a" and "a \<noteq> []" and "a \<noteq> t" and "outage st = None"
    and "find (initiate_where a t) (conversations st) = Some c"
  shows "case initiateConversationWithUser st cid now client t of
           (st', effs, r) \<Rightarrow> st' = st \<and> initiated_id r = Some (c_id c)"
proof -
  obtain st' effs r where e: "initiate_finish st client a c = (st', effs, r)"
    by (cases "initiate_finish st client a c") auto
  from initiated_id_finish [OF e] e show ?thesis
    by (simp add: initiate_existing_row [OF assms])
qed

text \<open>
  Claim C2. Let \<open>a\<close> and \<open>b\<close> be distinct users, each calling through a connection
  bound to their id, and let the store answer. If a row exists for the pair in either
  order, \<open>initiateConversationWithUser\<close> returns that row's id and leaves the store as it
  is, whichever of the two calls. If a first call by \<open>a\<close> returns a conversation id,
  a second call, by \<open>a\<close> for \<open>b\<close> or by \<open>b\<close> for \<open>a\<close>, returns the same id and
  leaves the store as the first call left it. A call never takes the pair from at most
  one row to more than one; and it does return an id when both users exist.
\<close>

theorem initiate_idempotent_symmetric:
  assumes "data_userId clientA = Some a" and "data_userId clientB = Some b"
    and "a \<noteq> []" and "b \<noteq> []" and "a \<noteq> b" and "outage st = None"
  shows "(find (initiate_where a b) (conversations st) = Some c \<longrightarrow>
            (case initiateConversationWithUser st cid now clientA b of
               (st', effs, r) \<Rightarrow> st' = st \<and> initiated_id r = Some (c_id c)) \<and>
            (case initiateConversationWithUser st cid now clientB a of
               (st', effs, r) \<Rightarrow> st' = st \<and> initiated_id r = Some (c_id c))) \<and>
         (case initiateConversationWithUser st cid now clientA b of
            (st1, effs1, r1) \<Rightarrow>
              (length (rows_of_pair st a b) \<le> 1 \<longrightarrow> length (rows_of_pair st1 a b) \<le> 1) \<and>
              (find (\<lambda>u. u_id u = a) (users st) \<noteq> None \<and>
               find (\<lambda>u. u_id u = b) (users st) \<noteq> None \<longrightarrow> initiated_id r1 \<noteq> None) \<and>
              (\<forall>i. initiated_id r1 = Some i \<longrightarrow>
                 (case initiateConversationWithUser st1 cid' now' clientA b of
                    (st2, effs2, r2) \<Rightarrow> st2 = st1 \<and> initiated_id r2 = Some i) \<and>
                 (case initiateConversationWithUser st1 cid' now' clientB a of
                    (st2, effs2, r2) \<Rightarrow> st2 = st1 \<and> initiated_id r2 = Some i)))"
proof (intro conjI impI)
  assume f: "find (initiate_where a b) (conversations st) = Some c"
  show "case initiateConversationWithUser st cid now clientA b of
          (st', effs, r) \<Rightarrow> st' = st \<and> initiated_id r = Some (c_id c)"
    by (rule initiate_again [OF assms(1,3,5,6) f])
  from f have f': "find (initiate_where b a) (conversations st) = Some c"
    by (simp add: initiate_where_sym [of b a])
  show "case initiateConversationWithUser st cid now clientB a of
          (st', effs, r) \<Rightarrow> st' = st \<and> initiated_id r = Some (c_id c)"
    by (rule initiate_again [OF assms(2,4) assms(5) [symmetric] assms(6) f'])
next
  obtain st1 effs1 r1 where
    e: "initiateConversationWithUser st cid now clientA b = (st1, effs1, r1)"
    by (cases "initiateConversationWithUser st cid now clientA b") auto
  note fc = initiate_first_call [OF assms(1,3,5,6) e]
  have rows: "length (rows_of_pair st a b) \<le> 1 \<longrightarrow> length (rows_of_pair st1 a b) \<le> 1"
    using fc(3) by blast
  have succ: "find (\<lambda>u. u_id u = a) (users st) \<noteq> None \<and>
      find (\<lambda>u. u_id u = b) (users st) \<noteq> None \<longrightarrow> initiated_id r1 \<noteq> None"
    using e [unfolded initiate_outcome [OF assms(1,3,5,6)]]
    by (auto simp: initiate_finish_def Let_def initiated_id_def split: option.splits)
  have again: "\<forall>i. initiated_id r1 = Some i \<longrightarrow>
      (case initiateConversationWithUser st1 cid' now' clientA b of
         (st2, effs2, r2) \<Rightarrow> st2 = st1 \<and> initiated_id r2 = Some i) \<and>
      (case initiateConversationWithUser st1 cid' now' clientB a of
         (st2, effs2, r2) \<Rightarrow> st2 = st1 \<and> initiated_id r2 = Some i)"
  proof (intro allI impI)
    fix i
    assume "initiated_id r1 = Some i"
    then obtain c1 where
      f: "find (initiate_where a b) (conversations st1) = Some c1" and i: "c_id c1 = i"
      using fc(2) by blast
    from f have f': "find (initiate_where b a) (conversations st1) = Some c1"
      by (simp add: initiate_where_sym [of b a])
    show "(case initiateConversationWithUser st1 cid' now' clientA b of
         (st2, effs2, r2) \<Rightarrow> st2 = st1 \<and> initiated_id r2 = Some i) \<and>
      (case initiateConversationWithUser st1 cid' now' clientB a of
         (st2, effs2, r2) \<Rightarrow> st2 = st1 \<and> initiated_id r2 = Some i)"
      using initiate_again [OF assms(1,3,5) fc(1) f, of cid' now']
        initiate_again [OF assms(2,4) assms(5) [symmetric] fc(1) f', of cid' now'] i
      by simp
  qed
  show "case initiateConversationWithUser st cid now clientA b of
          (st1, effs1, r1) \<Rightarrow>
            (length (rows_of_pair st a b) \<le> 1 \<longrightarrow> length (rows_of_pair st1 a b) \<le> 1) \<and>
            (find (\<lambda>u. u_id u = a) (users st) \<noteq> None \<and>
             find (\<lambda>u. u_id u = b) (users st) \<noteq> None \<longrightarrow> initiated_id r1 \<noteq> None) \<and>
            (\<forall>i. initiated_id r1 = Some i \<longrightarrow>
               (case initiateConversationWithUser st1 cid' now' clientA b of
                  (st2, effs2, r2) \<Rightarrow> st2 = st1 \<and> initiated_id r2 = Some i) \<and>
               (case initiateConversationWithUser st1 cid' now' clientB a of
                  (st2, effs2, r2) \<Rightarrow> st2 = st1 \<and> initiated_id r2 = Some i))"
    unfolding e prod.case using rows succ again by blast
qed

theorem initiate_idempotent_symmetric_witness:
  "data_userId (socket_of ''s1'' (Some ''alice'')) = Some ''alice'' \<and>
   data_userId (socket_of ''s3'' (Some ''carol'')) = Some ''carol'' \<and>
   data_userId (socket_of ''s2'' (Some ''bob'')) = Some ''bob'' \<and>
   outage example_store = None \<and>
   find (initiate_where ''alice'' ''bob'') (conversations example_store) = Some conv_ab \<and>
   length (rows_of_pair example_store ''alice'' ''carol'') \<le> 1 \<and>
   initiated_id (snd (snd (initiateConversationWithUser example_store ''c3'' 60
       (socket_of ''s2'' (Some ''bob'')) ''alice''))) = Some ''c1'' \<and>
   fst (initiateConversationWithUser example_store ''c3'' 60
       (socket_of ''s2'' (Some ''bob'')) ''alice'') = example_store \<and>
   initiated_id (snd (snd (initiateConversationWithUser example_store ''c3'' 60
       (socket_of ''s1'' (Some ''alice'')) ''carol''))) = Some ''c3'' \<and>
   length (rows_of_pair (fst (initiateConversationWithUser example_store ''c3'' 60
       (socket_of ''s1'' (Some ''alice'')) ''carol'')) ''alice'' ''carol'') \<le> 1 \<and>
   initiated_id (snd (snd (initiateConversationWithUser
       (fst (initiateConversationWithUser example_store ''c3'' 60
          (socket_of ''s1'' (Some ''alice'')) ''carol''))
       ''c4'' 61 (socket_of ''s3'' (Some ''carol'')) ''alice''))) = Some ''c3'' \<and>
   fst (initiateConversationWithUser
       (fst (initiateConversationWithUser example_store ''c3'' 60
          (socket_of ''s1'' (Some ''alice'')) ''carol''))
       ''c4'' 61 (socket_of ''s3'' (Some ''carol'')) ''alice'') =
     fst (initiateConversationWithUser example_store ''c3'' 60
          (socket_of ''s1'' (Some ''alice'')) ''carol'')"
proof -
  have d: "data_userId (socket_of ''s1'' (Some ''alice'')) = Some ''alice''"
    "data_userId (socket_of ''s3'' (Some ''carol'')) = Some ''carol''"
    "data_userId (socket_of ''s2'' (Some ''bob'')) = Some ''bob''"
    by (simp_all add: socket_of_def)
  have ne: "''alice'' \<noteq> []" "''carol'' \<noteq> []" "''bob'' \<noteq> []"
    "''alice'' \<noteq> ''carol''" "''alice'' \<noteq> ''bob''"
    by simp_all
  have o: "outage example_store = None" by (simp add: example_store_def)
  have f: "find (initiate_where ''alice'' ''bob'') (conversations example_store) = Some conv_ab"
    by (simp add: example_store_def initiate_where_def conv_ab_def c_initiatorId_def
          c_receiverId_def select_participant_def alice_def bob_def)
  have g: "find (initiate_where ''alice'' ''carol'') (conversations example_store) = None"
    by (simp add: example_store_def initiate_where_def conv_ab_def conv_bc_def c_initiatorId_def
          c_receiverId_def select_participant_def alice_def bob_def carol_def)
  have l: "length (rows_of_pair example_store ''alice'' ''carol'') \<le> 1"
    using g by (simp add: rows_of_pair_def filter_find_None)
  have u: "find (\<lambda>u. u_id u = ''alice'') (users example_store) = Some alice"
    "find (\<lambda>u. u_id u = ''carol'') (users example_store) = Some carol"
    by (simp_all add: example_store_def alice_def bob_def carol_def)
  have r1: "initiated_id (snd (snd (initiateConversationWithUser example_store ''c3'' 60
       (socket_of ''s1'' (Some ''alice'')) ''carol''))) = Some ''c3''"
    unfolding initiate_outcome [OF d(1) ne(1) ne(4) o]
    by (simp add: g u initiate_finish_def initiated_id_def initiate_result_def
          new_conversation_def Let_def)
  have c: "c_id conv_ab = ''c1''" by (simp add: conv_ab_def)
  show ?thesis
    using d o f l r1
      initiate_idempotent_symmetric [OF d(1) d(3) ne(1) ne(3) ne(5) o,
        where c = conv_ab and cid = "''c3''" and now = 60 and cid' = "''c4''" and now' = 61]
      initiate_idempotent_symmetric [OF d(1) d(2) ne(1) ne(2) ne(4) o,
        where c = conv_ab and cid = "''c3''" and now = 60 and cid' = "''c4''" and now' = 61]
    unfolding c
    by (simp add: split_beta)
qed

section \<open>Listing conversations\<close>

lemma findMany_window_forward:
  "0 \<le> skip \<Longrightarrow> 0 \<le> tk \<Longrightarrow>
   findMany_window skip tk rows = Inr (take (nat tk) (drop (nat skip) rows))"
  by (simp add: findMany_window_def)

lemma findMany_window_subset:
  "findMany_window skip tk rows = Inr xs \<Longrightarrow> set xs \<subseteq> set rows"
proof -
  assume a: "findMany_window skip tk rows = Inr xs"
  have t: "\<And>n ys. set (take n (ys :: 'a list)) \<subseteq> set ys" by (rule set_take_subset)
  have d: "\<And>n ys. set (drop n (ys :: 'a list)) \<subseteq> set ys" by (rule set_drop_subset)
  show ?thesis
  proof (cases "0 \<le> tk")
    case True
    with a have "xs = take (nat tk) (drop (nat skip) rows)"
      by (auto simp: findMany_window_def split: if_splits)
    with t [of "nat tk" "drop (nat skip) rows"] d [of "nat skip" rows] show ?thesis by blast
  next
    case False
    with a have "xs = rev (take (nat (- tk)) (drop (nat skip) (rev rows)))"
      by (auto simp: findMany_window_def split: if_splits)
    with t [of "nat (- tk)" "drop (nat skip) (rev rows)"] d [of "nat skip" "rev rows"]
    show ?thesis by auto
  qed
qed

lemma loadConversations_inv:
  assumes "loadConversations st client dto = (effs, SuccessResponse (ConversationListData items pg))"
  shows "\<exists>userId convs. data_userId client = Some userId \<and>
           set convs \<subseteq> set (filter (loadConversations_where userId (lc_search dto))
                               (conversations st)) \<and>
           items = map (transformConversation st userId) convs"
proof -
  from assms obtain userId where u: "data_userId client = Some userId" "userId \<noteq> []"
    by (auto simp: loadConversations_def chatGateway_emitError_def emitError_def
          split: option.splits if_splits)
  with assms have
    "loadConversations_try st client userId dto =
       Inr (effs, SuccessResponse (ConversationListData items pg))"
    by (auto simp: loadConversations_def chatGateway_emitError_def emitError_def
          split: sum.splits)
  then obtain convs where
    w: "findMany_window
          (((case lc_page dto of None \<Rightarrow> 1 | Some p \<Rightarrow> p) - 1) *
             (case lc_limit dto of None \<Rightarrow> 20 | Some l \<Rightarrow> l))
          (case lc_limit dto of None \<Rightarrow> 20 | Some l \<Rightarrow> l)
          (orderBy_updatedAt_desc
             (filter (loadConversations_where userId (lc_search dto)) (conversations st)))
        = Inr convs"
    and i: "items = map (transformConversation st userId) convs"
    by (auto simp: loadConversations_try_def Let_def split: option.splits sum.splits)
  from findMany_window_subset [OF w]
  have "set convs \<subseteq> set (filter (loadConversations_where userId (lc_search dto))
                               (conversations st))"
    by (simp add: orderBy_updatedAt_desc_def)
  with u(1) i show ?thesis by blast
qed

lemma some_status_row:
  "distinct (map st_userId rows) \<Longrightarrow>
   list_ex (\<lambda>r. st_userId r = u \<and> st_status r \<noteq> s) rows \<longleftrightarrow>
     (case map_option st_status (find (\<lambda>r. st_userId r = u) rows) of
        None \<Rightarrow> False | Some x \<Rightarrow> x \<noteq> s)"
proof (induction rows)
  case Nil
  then show ?case by simp
next
  case (Cons r rows)
  show ?case
  proof (cases "st_userId r = u")
    case True
    with Cons.prems have "u \<notin> st_userId ` set rows" by auto
    then have "\<not> list_ex (\<lambda>r. st_userId r = u \<and> st_status r \<noteq> s) rows"
      by (auto simp: list_ex_iff)
    with True show ?thesis by simp
  next
    case False
    with Cons show ?thesis by simp
  qed
qed

lemma unreadCount_refines:
  assumes "where_participant userId c" and "conversation_wf st c"
  shows "unreadCount st userId c = spec_unreadCount st userId c"
proof -
  have "filter (unread_where userId) (conversation_messages st (c_id c)) =
        filter (\<lambda>m. case status_for userId m of None \<Rightarrow> False | Some s \<Rightarrow> s \<noteq> ''READ'')
          (counterpart_messages st userId c)"
    unfolding conversation_messages_def counterpart_messages_def filter_filter
  proof (rule filter_cong [OF refl])
    fix m
    assume "m \<in> set (messages st)"
    show "(m_conversationId m = c_id c \<and> unread_where userId m) =
          ((m_conversationId m = c_id c \<and> m_senderId m = p_id (otherParticipant userId c)) \<and>
           (case status_for userId m of None \<Rightarrow> False | Some s \<Rightarrow> s \<noteq> ''READ''))"
    proof (cases "m_conversationId m = c_id c")
      case False
      then show ?thesis by simp
    next
      case True
      with \<open>m \<in> set (messages st)\<close> have "m \<in> set (conversation_messages st (c_id c))"
        by (simp add: conversation_messages_def)
      with assms(2) have
        s: "m_senderId m = c_initiatorId c \<or> m_senderId m = c_receiverId c" and
        d: "distinct (map st_userId (m_statuses m))" and
        n: "c_initiatorId c \<noteq> c_receiverId c"
        by (auto simp: conversation_wf_def list_all_iff)
      have "m_senderId m \<noteq> userId \<longleftrightarrow> m_senderId m = p_id (otherParticipant userId c)"
        using s n assms(1)
        by (auto simp: where_participant_def otherParticipant_def c_initiatorId_def
              c_receiverId_def)
      then show ?thesis
        using True some_status_row [OF d, of userId "''READ''"]
        by (auto simp: unread_where_def status_for_def)
    qed
  qed
  then show ?thesis by (simp add: unreadCount_def spec_unreadCount_def)
qed

lemma read_or_unread:
  assumes "list_all (\<lambda>m. status_for userId m \<noteq> None) ms"
  shows "length (filter (\<lambda>m. case status_for userId m of None \<Rightarrow> False | Some s \<Rightarrow> s \<noteq> ''READ'') ms) +
         length (filter (\<lambda>m. status_for userId m = Some ''READ'') ms) = length ms"
proof -
  have "filter (\<lambda>m. status_for userId m = Some ''READ'') ms =
        filter (\<lambda>m. \<not> (case status_for userId m of None \<Rightarrow> False | Some s \<Rightarrow> s \<noteq> ''READ'')) ms"
    using assms by (intro filter_cong) (auto simp: list_all_iff split: option.splits)
  then show ?thesis by (simp add: sum_length_filter_compl)
qed

text \<open>
  Claim C6. Every conversation \<open>loadConversations\<close> returns to a user stems from a stored
  conversation \<open>c\<close> of that user, and its \<open>unreadCount\<close> is the number of the
  counterpart's messages in \<open>c\<close> whose status for the user is not \<open>READ\<close>
  (\<open>spec_unreadCount\<close>). When each of the counterpart's messages carries a status for
  the user, the count is the number of these messages less those marked \<open>READ\<close>: three
  messages of which one is read give 2. Conversations are taken to have two different
  participants who send all their messages, and a message at most one status per user.
\<close>

theorem unreadCount_counts_unread:
  assumes "loadConversations st client dto = (effs, r)"
    and "item \<in> set (listed r)"
    and "list_all (conversation_wf st) (conversations st)"
  shows "\<exists>userId c. data_userId client = Some userId \<and> c \<in> set (conversations st) \<and>
           where_participant userId c \<and> li_id item = c_id c \<and>
           li_participant item = otherParticipant userId c \<and>
           li_unreadCount item = spec_unreadCount st userId c \<and>
           (list_all (\<lambda>m. status_for userId m \<noteq> None) (counterpart_messages st userId c) \<longrightarrow>
              li_unreadCount item +
                length (filter (\<lambda>m. status_for userId m = Some ''READ'')
                          (counterpart_messages st userId c)) =
              length (counterpart_messages st userId c))"
proof -
  from assms(2) obtain items pg where
    r: "r = SuccessResponse (ConversationListData items pg)" and m: "item \<in> set items"
    by (auto simp: listed_def split: response.splits data.splits)
  from loadConversations_inv [OF assms(1) [unfolded r]] obtain userId convs where
    u: "data_userId client = Some userId" and
    s: "set convs \<subseteq> set (filter (loadConversations_where userId (lc_search dto))
                               (conversations st))" and
    i: "items = map (transformConversation st userId) convs"
    by blast
  from m i obtain c where c: "c \<in> set convs" and t: "item = transformConversation st userId c"
    by auto
  from c s have cs: "c \<in> set (conversations st)" and p: "where_participant userId c"
    by (auto simp: loadConversations_where_def)
  from cs assms(3) have wf: "conversation_wf st c" by (simp add: list_all_iff)
  have e: "li_unreadCount item = spec_unreadCount st userId c"
    using t unreadCount_refines [OF p wf] by (simp add: transformConversation_def)
  have "list_all (\<lambda>m. status_for userId m \<noteq> None) (counterpart_messages st userId c) \<longrightarrow>
          li_unreadCount item +
            length (filter (\<lambda>m. status_for userId m = Some ''READ'')
                      (counterpart_messages st userId c)) =
          length (counterpart_messages st userId c)"
    unfolding e spec_unreadCount_def by (intro impI read_or_unread)
  with u cs p e t show ?thesis
    by (intro exI [of _ userId] exI [of _ c]) (simp add: transformConversation_def)
qed

lemma example_listing:
  "loadConversations example_store (socket_of ''s1'' (Some ''alice''))
       \<lparr>lc_page = None, lc_limit = None, lc_search = None\<rparr> =
   ([ClientEmit ''s1'' EventsEnum_CONVERSATION_LIST_RESPONSE
      (Envelope (SuccessResponse (ConversationListData
         [\<lparr>li_id = ''c1'', li_participant = select_participant bob, li_lastMessage = None,
           li_unreadCount = 2, li_status = ARCHIVED, li_createdAt = 10, li_updatedAt = 30\<rparr>]
         \<lparr>pg_page = 1, pg_limit = 20, pg_total = 1, pg_totalPages = Num 1\<rparr>)))],
    SuccessResponse (ConversationListData
       [\<lparr>li_id = ''c1'', li_participant = select_participant bob, li_lastMessage = None,
         li_unreadCount = 2, li_status = ARCHIVED, li_createdAt = 10, li_updatedAt = 30\<rparr>]
       \<lparr>pg_page = 1, pg_limit = 20, pg_total = 1, pg_totalPages = Num 1\<rparr>))"
  by (simp add: loadConversations_def loadConversations_try_def socket_of_def example_store_def
        loadConversations_where_def where_participant_def where_search_def truthy_def
        conv_ab_def conv_bc_def c_initiatorId_def c_receiverId_def select_participant_def
        alice_def bob_def carol_def orderBy_updatedAt_desc_def findMany_window_def
        transformConversation_def otherParticipant_def unreadCount_def
        conversation_messages_def unread_where_def msg_from_bob_def m_senderId_def
        js_ceil_div_def Let_def)

theorem unreadCount_counts_unread_witness:
  "list_all (conversation_wf example_store) (conversations example_store) \<and>
   listed (snd (loadConversations example_store (socket_of ''s1'' (Some ''alice''))
       \<lparr>lc_page = None, lc_limit = None, lc_search = None\<rparr>)) =
     [\<lparr>li_id = ''c1'', li_participant = select_participant bob, li_lastMessage = None,
       li_unreadCount = 2, li_status = ARCHIVED, li_createdAt = 10, li_updatedAt = 30\<rparr>] \<and>
   length (counterpart_messages example_store ''alice'' conv_ab) = 3 \<and>
   length (filter (\<lambda>m. status_for ''alice'' m = Some ''READ'')
             (counterpart_messages example_store ''alice'' conv_ab)) = 1 \<and>
   spec_unreadCount example_store ''alice'' conv_ab = 2 \<and>
   (\<exists>userId c. data_userId (socket_of ''s1'' (Some ''alice'')) = Some userId \<and>
      c \<in> set (conversations example_store) \<and> where_participant userId c \<and> c_id c = ''c1'' \<and>
      spec_unreadCount example_store userId c = 2)"
proof -
  let ?item = "\<lparr>li_id = ''c1'', li_participant = select_participant bob, li_lastMessage = None,
       li_unreadCount = 2, li_status = ARCHIVED, li_createdAt = 10, li_updatedAt = 30\<rparr>"
  let ?r = "SuccessResponse (ConversationListData [?item]
       \<lparr>pg_page = 1, pg_limit = 20, pg_total = 1, pg_totalPages = Num 1\<rparr>)"
  have wf: "list_all (conversation_wf example_store) (conversations example_store)"
    by (simp add: conversation_wf_def example_store_def conv_ab_def conv_bc_def
          c_initiatorId_def c_receiverId_def select_participant_def alice_def bob_def carol_def
          conversation_messages_def msg_from_bob_def m_senderId_def)
  have l: "listed (snd (loadConversations example_store (socket_of ''s1'' (Some ''alice''))
       \<lparr>lc_page = None, lc_limit = None, lc_search = None\<rparr>)) = [?item]"
    by (simp add: example_listing listed_def)
  have m: "?item \<in> set (listed ?r)" by (simp add: listed_def)
  have cm: "counterpart_messages example_store ''alice'' conv_ab =
      [msg_from_bob ''m1'' 11 ''READ'', msg_from_bob ''m2'' 12 ''DELIVERED'',
       msg_from_bob ''m3'' 13 ''SENT'']"
    by (simp add: counterpart_messages_def example_store_def conv_ab_def msg_from_bob_def
          m_senderId_def otherParticipant_def c_initiatorId_def select_participant_def
          alice_def bob_def)
  have n: "length (counterpart_messages example_store ''alice'' conv_ab) = 3"
    by (simp add: cm)
  have rd: "length (filter (\<lambda>m. status_for ''alice'' m = Some ''READ'')
             (counterpart_messages example_store ''alice'' conv_ab)) = 1"
    by (simp add: cm status_for_def msg_from_bob_def)
  have su: "spec_unreadCount example_store ''alice'' conv_ab = 2"
    by (simp add: spec_unreadCount_def cm status_for_def msg_from_bob_def)
  have "\<exists>userId c. data_userId (socket_of ''s1'' (Some ''alice'')) = Some userId \<and>
      c \<in> set (conversations example_store) \<and> where_participant userId c \<and> c_id c = ''c1'' \<and>
      spec_unreadCount example_store userId c = 2"
    using unreadCount_counts_unread [OF example_listing m wf] by auto
  with wf l n rd su show ?thesis by blast
qed

lemma js_ceil_div_ceiling:
  "limit \<noteq> 0 \<Longrightarrow> js_ceil_div n limit = Num \<lceil>real n / real_of_int limit\<rceil>"
proof -
  assume "limit \<noteq> 0"
  have "\<lceil>real_of_int (int n) / real_of_int limit\<rceil> = - (- int n div limit)"
    by (rule ceiling_divide_eq_div)
  with \<open>limit \<noteq> 0\<close> show ?thesis by (simp add: js_ceil_div_def)
qed

lemma orderBy_updatedAt_desc_sorted:
  "sorted_wrt (\<lambda>x y. c_updatedAt y \<le> c_updatedAt x) (orderBy_updatedAt_desc cs)"
proof -
  have "sorted (map (\<lambda>c. - int (c_updatedAt c)) (sort_key (\<lambda>c. - int (c_updatedAt c)) cs))"
    by (rule sorted_sort_key)
  then show ?thesis
    by (simp add: orderBy_updatedAt_desc_def sorted_map)
qed

lemma orderBy_updatedAt_desc_length:
  "length (orderBy_updatedAt_desc cs) = length cs"
  by (simp add: orderBy_updatedAt_desc_def)

lemma loadConversations_ok:
  assumes "data_userId client = Some userId" and "userId \<noteq> []" and "outage st = None"
    and "page = (case lc_page dto of None \<Rightarrow> 1 | Some p \<Rightarrow> p)"
    and "limit = (case lc_limit dto of None \<Rightarrow> 20 | Some l \<Rightarrow> l)"
    and "1 \<le> page" and "0 \<le> limit"
    and "matching = orderBy_updatedAt_desc
           (filter (loadConversations_where userId (lc_search dto)) (conversations st))"
  shows "snd (loadConversations st client dto) =
     SuccessResponse (ConversationListData
       (map (transformConversation st userId)
          (take (nat limit) (drop (nat ((page - 1) * limit)) matching)))
       \<lparr>pg_page = page, pg_limit = limit, pg_total = length matching,
        pg_totalPages = js_ceil_div (length matching) limit\<rparr>)"
proof -
  have "0 \<le> (page - 1) * limit" using assms(6,7) by simp
  then have w: "findMany_window ((page - 1) * limit) limit matching =
      Inr (take (nat limit) (drop (nat ((page - 1) * limit)) matching))"
    using assms(7) by (rule findMany_window_forward)
  show ?thesis
    using assms(1,2,3) w
    unfolding assms(4,5,8)
    by (simp add: loadConversations_def loadConversations_try_def Let_def
          orderBy_updatedAt_desc_length)
qed

text \<open>
  Claim C7. For an authenticated user, a store that answers, a page of at least 1 and a
  limit that is not negative (the defaults are page 1 and limit 20), \<open>loadConversations\<close>
  orders the user's matching conversations most recently updated first, skips the first
  \<open>(page - 1) * limit\<close> of them and returns at most \<open>limit\<close> of the rest, in that
  order; it reports the number of matching conversations as the total and
  \<^verbatim>\<open>Math.ceil(total / limit)\<close> as \<open>totalPages\<close>, which for a limit of at least 1 is
  the integer \<open>\<lceil>total / limit\<rceil>\<close>. With 45 conversations and limit 20, page 1 has 20
  items and 3 pages are reported, and page 3 has 5 items.
\<close>

theorem loadConversations_pagination:
  assumes "data_userId client = Some userId" and "userId \<noteq> []" and "outage st = None"
    and "page = (case lc_page dto of None \<Rightarrow> 1 | Some p \<Rightarrow> p)"
    and "limit = (case lc_limit dto of None \<Rightarrow> 20 | Some l \<Rightarrow> l)"
    and "1 \<le> page" and "0 \<le> limit"
    and "matching = orderBy_updatedAt_desc
           (filter (loadConversations_where userId (lc_search dto)) (conversations st))"
    and "r = snd (loadConversations st client dto)"
  shows "sorted_wrt (\<lambda>x y. c_updatedAt y \<le> c_updatedAt x) matching \<and>
         listed r = map (transformConversation st userId)
                      (take (nat limit) (drop (nat ((page - 1) * limit)) matching)) \<and>
         length (listed r) \<le> nat limit \<and>
         length (listed r) = min (nat limit) (length matching - nat ((page - 1) * limit)) \<and>
         sorted_wrt (\<lambda>x y. li_updatedAt y \<le> li_updatedAt x) (listed r) \<and>
         paging r = Some \<lparr>pg_page = page, pg_limit = limit, pg_total = length matching,
                          pg_totalPages = js_ceil_div (length matching) limit\<rparr> \<and>
         (1 \<le> limit \<longrightarrow>
            js_ceil_div (length matching) limit =
              Num \<lceil>real (length matching) / real_of_int limit\<rceil>) \<and>
         (length matching = 45 \<and> limit = 20 \<longrightarrow>
            paging r = Some \<lparr>pg_page = page, pg_limit = 20, pg_total = 45,
                             pg_totalPages = Num 3\<rparr> \<and>
            (page = 1 \<longrightarrow> length (listed r) = 20) \<and>
            (page = 3 \<longrightarrow> length (listed r) = 5))"
proof -
  let ?window = "take (nat limit) (drop (nat ((page - 1) * limit)) matching)"
  have res: "r = SuccessResponse (ConversationListData
       (map (transformConversation st userId) ?window)
       \<lparr>pg_page = page, pg_limit = limit, pg_total = length matching,
        pg_totalPages = js_ceil_div (length matching) limit\<rparr>)"
    unfolding assms(9) by (rule loadConversations_ok [OF assms(1-8)])
  have so: "sorted_wrt (\<lambda>x y. c_updatedAt y \<le> c_updatedAt x) matching"
    unfolding assms(8) by (rule orderBy_updatedAt_desc_sorted)
  have li: "listed r = map (transformConversation st userId) ?window"
    by (simp add: res listed_def)
  have len: "length (listed r) = min (nat limit) (length matching - nat ((page - 1) * limit))"
    by (simp add: li min.commute)
  have le: "length (listed r) \<le> nat limit" by (simp add: len)
  have "sorted_wrt (\<lambda>x y. c_updatedAt y \<le> c_updatedAt x) ?window"
    using so by (intro sorted_wrt_take sorted_wrt_drop)
  then have sl: "sorted_wrt (\<lambda>x y. li_updatedAt y \<le> li_updatedAt x) (listed r)"
    by (simp add: li sorted_wrt_map transformConversation_def)
  have pg: "paging r = Some \<lparr>pg_page = page, pg_limit = limit, pg_total = length matching,
                          pg_totalPages = js_ceil_div (length matching) limit\<rparr>"
    by (simp add: res paging_def)
  have ce: "1 \<le> limit \<longrightarrow>
      js_ceil_div (length matching) limit = Num \<lceil>real (length matching) / real_of_int limit\<rceil>"
  proof
    assume "1 \<le> limit"
    then have "limit \<noteq> 0" by simp
    then show "js_ceil_div (length matching) limit =
        Num \<lceil>real (length matching) / real_of_int limit\<rceil>"
      by (rule js_ceil_div_ceiling)
  qed
  have ex: "length matching = 45 \<and> limit = 20 \<longrightarrow>
            paging r = Some \<lparr>pg_page = page, pg_limit = 20, pg_total = 45,
                             pg_totalPages = Num 3\<rparr> \<and>
            (page = 1 \<longrightarrow> length (listed r) = 20) \<and>
            (page = 3 \<longrightarrow> length (listed r) = 5)"
  proof (intro impI conjI)
    assume a: "length matching = 45 \<and> limit = 20"
    show "paging r = Some \<lparr>pg_page = page, pg_limit = 20, pg_total = 45,
                             pg_totalPages = Num 3\<rparr>"
      using a by (simp add: res paging_def js_ceil_div_def)
    show "length (listed r) = 20" if "page = 1" using a that by (simp add: len)
    show "length (listed r) = 5" if "page = 3" using a that by (simp add: len)
  qed
  from so li le len sl pg ce ex show ?thesis by blast
qed

lemma busy_matching:
  "filter (loadConversations_where ''alice'' None) (conversations busy_store) =
     conversations busy_store"
  by (rule filter_True)
     (auto simp: busy_store_def numbered_conversation_def loadConversations_where_def
        where_participant_def where_search_def truthy_def conv_ab_def c_initiatorId_def
        select_participant_def alice_def)

theorem loadConversations_pagination_witness:
  "data_userId (socket_of ''s1'' (Some ''alice'')) = Some ''alice'' \<and>
   outage busy_store = None \<and>
   length (filter (loadConversations_where ''alice'' None) (conversations busy_store)) = 45 \<and>
   length (listed (snd (loadConversations busy_store (socket_of ''s1'' (Some ''alice''))
       \<lparr>lc_page = Some 1, lc_limit = Some 20, lc_search = None\<rparr>))) = 20 \<and>
   paging (snd (loadConversations busy_store (socket_of ''s1'' (Some ''alice''))
       \<lparr>lc_page = Some 1, lc_limit = Some 20, lc_search = None\<rparr>)) =
     Some \<lparr>pg_page = 1, pg_limit = 20, pg_total = 45, pg_totalPages = Num 3\<rparr> \<and>
   length (listed (snd (loadConversations busy_store (socket_of ''s1'' (Some ''alice''))
       \<lparr>lc_page = Some 3, lc_limit = Some 20, lc_search = None\<rparr>))) = 5 \<and>
   sorted_wrt (\<lambda>x y. li_updatedAt y \<le> li_updatedAt x)
     (listed (snd (loadConversations busy_store (socket_of ''s1'' (Some ''alice''))
       \<lparr>lc_page = Some 3, lc_limit = Some 20, lc_search = None\<rparr>)))"
proof -
  have d: "data_userId (socket_of ''s1'' (Some ''alice'')) = Some ''alice''"
    by (simp add: socket_of_def)
  have ne: "''alice'' \<noteq> []" by simp
  have o: "outage busy_store = None" by (simp add: busy_store_def example_store_def)
  have n: "length (filter (loadConversations_where ''alice'' None) (conversations busy_store)) = 45"
    unfolding busy_matching by (simp add: busy_store_def)
  have p1: "(1::int) = (case lc_page \<lparr>lc_page = Some 1, lc_limit = Some 20, lc_search = None\<rparr> of
      None \<Rightarrow> 1 | Some p \<Rightarrow> p)"
    and p3: "(3::int) = (case lc_page \<lparr>lc_page = Some 3, lc_limit = Some 20, lc_search = None\<rparr> of
      None \<Rightarrow> 1 | Some p \<Rightarrow> p)"
    and l1: "(20::int) = (case lc_limit \<lparr>lc_page = Some 1, lc_limit = Some 20, lc_search = None\<rparr> of
      None \<Rightarrow> 20 | Some l \<Rightarrow> l)"
    and l3: "(20::int) = (case lc_limit \<lparr>lc_page = Some 3, lc_limit = Some 20, lc_search = None\<rparr> of
      None \<Rightarrow> 20 | Some l \<Rightarrow> l)"
    by simp_all
  have m1: "orderBy_updatedAt_desc (conversations busy_store) = orderBy_updatedAt_desc
      (filter (loadConversations_where ''alice''
         (lc_search \<lparr>lc_page = Some 1, lc_limit = Some 20, lc_search = None\<rparr>))
         (conversations busy_store))"
    and m3: "orderBy_updatedAt_desc (conversations busy_store) = orderBy_updatedAt_desc
      (filter (loadConversations_where ''alice''
         (lc_search \<lparr>lc_page = Some 3, lc_limit = Some 20, lc_search = None\<rparr>))
         (conversations busy_store))"
    by (simp_all add: busy_matching)
  have k: "length (orderBy_updatedAt_desc (conversations busy_store)) = 45"
    using n by (simp add: busy_matching orderBy_updatedAt_desc_length)
  have one: "(1::int) \<le> 1" and three: "(1::int) \<le> 3" and twenty: "(0::int) \<le> 20"
    by simp_all
  show ?thesis
    using d o n k
      loadConversations_pagination [OF d ne o p1 l1 one twenty m1 refl]
      loadConversations_pagination [OF d ne o p3 l3 three twenty m3 refl]
    by blast
qed

end
